theory Spec2Isabelle
  imports Complex_Main "HOL-Library.Sublist" "HOL-Library.AList" "HOL-Library.Word"
begin

section \<open>Time zone identifiers (js-date-time-format.cc, lines 179-274)\<close>

text \<open>
  A C++ \<^verbatim>\<open>std::string\<close> is a sequence of bytes, modelled as a \<^typ>\<open>string\<close>.
  \<^verbatim>\<open>IsInRange(ch, lower, upper)\<close> (src/utils.h) tests \<^verbatim>\<open>lower <= ch <= upper\<close>; the
  bounds used here are ASCII characters, so a byte above 127 is outside every range
  whether \<^verbatim>\<open>char\<close> is signed or not.
\<close>

definition IsInRange :: "char \<Rightarrow> char \<Rightarrow> char \<Rightarrow> bool" where
  "IsInRange ch lower upper =
     ((of_char lower :: nat) \<le> of_char ch \<and> (of_char ch :: nat) \<le> of_char upper)"

definition GetGMTTzID :: "string \<Rightarrow> string" where
  "GetGMTTzID input =
     (let ret = ''Etc/GMT'' in
      if length input = 8 then
        (if input ! 7 = CHR ''0'' then ret @ [CHR ''0''] else [])
      else if length input = 9 then
        (if (input ! 7 = CHR ''+'' \<or> input ! 7 = CHR ''-'') \<and>
            IsInRange (input ! 8) (CHR ''0'') (CHR ''9'')
         then ret @ [input ! 7, input ! 8] else [])
      else if length input = 10 then
        (if (input ! 7 = CHR ''+'' \<or> input ! 7 = CHR ''-'') \<and> input ! 8 = CHR ''1'' \<and>
            IsInRange (input ! 9) (CHR ''0'') (CHR ''4'')
         then ret @ [input ! 7, input ! 8, input ! 9] else [])
      else [])"

definition IsAsciiAlpha :: "char \<Rightarrow> bool" where
  "IsAsciiAlpha ch = (IsInRange ch (CHR ''A'') (CHR ''Z'') \<or> IsInRange ch (CHR ''a'') (CHR ''z''))"

definition LocaleIndependentAsciiToUpper :: "char \<Rightarrow> char" where
  "LocaleIndependentAsciiToUpper ch =
     (if IsInRange ch (CHR ''a'') (CHR ''z'')
      then char_of ((of_char ch :: nat) - of_char (CHR ''a'') + of_char (CHR ''A''))
      else ch)"

definition LocaleIndependentAsciiToLower :: "char \<Rightarrow> char" where
  "LocaleIndependentAsciiToLower ch =
     (if IsInRange ch (CHR ''A'') (CHR ''Z'')
      then char_of ((of_char ch :: nat) - of_char (CHR ''A'') + of_char (CHR ''a''))
      else ch)"

text \<open>
  The loop of \<^verbatim>\<open>ToTitleCaseTimezoneLocation\<close>: the state is the string built so far
  and the length of the current word. \<^verbatim>\<open>word_length\<close> is an \<^verbatim>\<open>int\<close> in the source; it
  never exceeds the length of the input, which for a V8 string is below \<open>2^30\<close>, so it
  cannot overflow and is a natural number here. An invalid character leaves the
  function at once with the empty string.
\<close>

fun ToTitleCaseTimezoneLocation_loop :: "string \<Rightarrow> nat \<Rightarrow> string \<Rightarrow> string" where
  "ToTitleCaseTimezoneLocation_loop title_cased word_length [] = title_cased"
| "ToTitleCaseTimezoneLocation_loop title_cased word_length (ch # rest) =
     (if IsAsciiAlpha ch then
        ToTitleCaseTimezoneLocation_loop
          (title_cased @ [if word_length = 0 then LocaleIndependentAsciiToUpper ch
                          else LocaleIndependentAsciiToLower ch])
          (word_length + 1) rest
      else if ch = CHR ''_'' \<or> ch = CHR ''-'' \<or> ch = CHR ''/'' then
        (let title_cased1 =
           (if word_length = 2 then
              (let pos = length title_cased - 2;
                   substr = take 2 (drop pos title_cased)
               in if substr = ''Of'' \<or> substr = ''Es'' \<or> substr = ''Au''
                  then title_cased[pos := LocaleIndependentAsciiToLower (title_cased ! pos)]
                  else title_cased)
            else title_cased)
         in ToTitleCaseTimezoneLocation_loop (title_cased1 @ [ch]) 0 rest)
      else [])"

definition ToTitleCaseTimezoneLocation :: "string \<Rightarrow> string" where
  "ToTitleCaseTimezoneLocation input = ToTitleCaseTimezoneLocation_loop [] 0 input"

text \<open>
  \<^verbatim>\<open>strncmp(upper.c_str(), "ETC/GMT", 7) == 0\<close> holds exactly when the first seven
  bytes of \<^verbatim>\<open>upper\<close> are \<^verbatim>\<open>ETC/GMT\<close>: a shorter string meets its terminating NUL first.
\<close>

definition CanonicalizeTimeZoneID :: "string \<Rightarrow> string" where
  "CanonicalizeTimeZoneID input =
     (let upper = map LocaleIndependentAsciiToUpper input in
      if upper = ''UTC'' \<or> upper = ''GMT'' \<or> upper = ''ETC/UTC'' \<or> upper = ''ETC/GMT''
      then ''UTC''
      else if take 7 upper = ''ETC/GMT'' then GetGMTTzID input
      else ToTitleCaseTimezoneLocation input)"

subsection \<open>The grammars in the specification's words\<close>

text \<open>
  The GMT-offset grammar as the specification words it, on the characters after the
  seven-character prefix: \<open>0\<close>; a sign and a digit; a sign, \<open>1\<close> and a digit up to 4.
\<close>

definition gmt_offset_grammar :: "string \<Rightarrow> string" where
  "gmt_offset_grammar off =
     (case off of
        [z] \<Rightarrow> if z = CHR ''0'' then ''Etc/GMT0'' else []
      | [s, d] \<Rightarrow>
          if s \<in> set ''+-'' \<and> d \<in> set ''0123456789'' then ''Etc/GMT'' @ [s, d] else []
      | [s, t, d] \<Rightarrow>
          if s \<in> set ''+-'' \<and> t = CHR ''1'' \<and> d \<in> set ''01234''
          then ''Etc/GMT'' @ [s, CHR ''1'', d] else []
      | _ \<Rightarrow> [])"

definition is_utc_alias :: "string \<Rightarrow> bool" where
  "is_utc_alias input =
     (map LocaleIndependentAsciiToUpper input \<in> {''UTC'', ''GMT'', ''ETC/UTC'', ''ETC/GMT''})"

definition has_etc_gmt_prefix :: "string \<Rightarrow> bool" where
  "has_etc_gmt_prefix input = (map LocaleIndependentAsciiToUpper (take 7 input) = ''ETC/GMT'')"

text \<open>
  The titlecase-location grammar in the specification's words. The input is split into
  the words between the separators \<open>_\<close>, \<open>-\<close> and \<open>/\<close>; every word is titlecased, the
  two-letter words \<open>of\<close>, \<open>es\<close> and \<open>au\<close> (in any case) are lowercased, and the words are
  joined again with the separators that stood between them. An input with any other
  character than an ASCII letter or a separator is invalid and gives the empty string.
\<close>

definition is_separator :: "char \<Rightarrow> bool" where
  "is_separator c = (c = CHR ''_'' \<or> c = CHR ''-'' \<or> c = CHR ''/'')"

fun split_words :: "string \<Rightarrow> string list" where
  "split_words [] = [[]]"
| "split_words (c # cs) =
     (if is_separator c then [] # split_words cs
      else (case split_words cs of [] \<Rightarrow> [[c]] | w # ws \<Rightarrow> (c # w) # ws))"

fun join_words :: "string list \<Rightarrow> string \<Rightarrow> string" where
  "join_words [] seps = []"
| "join_words (w # ws) [] = w"
| "join_words (w # ws) (s # seps) = w @ s # join_words ws seps"

definition title_word :: "string \<Rightarrow> string" where
  "title_word w =
     (case w of [] \<Rightarrow> []
      | c # cs \<Rightarrow> LocaleIndependentAsciiToUpper c # map LocaleIndependentAsciiToLower cs)"

definition is_special_word :: "string \<Rightarrow> bool" where
  "is_special_word w = (map LocaleIndependentAsciiToLower w \<in> {''of'', ''es'', ''au''})"

definition canonical_word :: "string \<Rightarrow> string" where
  "canonical_word w =
     (if is_special_word w then map LocaleIndependentAsciiToLower w else title_word w)"

definition valid_location :: "string \<Rightarrow> bool" where
  "valid_location input = list_all (\<lambda>c. IsAsciiAlpha c \<or> is_separator c) input"

text \<open>Every special word is lowercased, wherever it stands.\<close>

definition titlecase_location_claimed :: "string \<Rightarrow> string" where
  "titlecase_location_claimed input =
     (if valid_location input
      then join_words (map canonical_word (split_words input)) (filter is_separator input)
      else [])"

text \<open>
  What the loop of \<^const>\<open>ToTitleCaseTimezoneLocation\<close> leaves of the words: it looks
  for a special word at a separator only, so the word the input ends with is titlecased
  whatever it is. \<^const>\<open>titlecase_location_claimed\<close> is compared with it.
\<close>

fun canonical_words :: "string list \<Rightarrow> string list" where
  "canonical_words [] = []"
| "canonical_words [w] = [title_word w]"
| "canonical_words (w # ws) = canonical_word w # canonical_words ws"

definition titlecase_location_of_loop :: "string \<Rightarrow> string" where
  "titlecase_location_of_loop input =
     (if valid_location input
      then join_words (canonical_words (split_words input)) (filter is_separator input)
      else [])"

section \<open>Host values, objects and errors\<close>

text \<open>
  Modelled from the spec: the object model of the host language is outside the sources
  (\<^verbatim>\<open>Object::ToObject\<close>, \<^verbatim>\<open>JSObject::ObjectCreate\<close>, \<^verbatim>\<open>Object::GetPropertyOrElement\<close>,
  \<^verbatim>\<open>JSReceiver::CreateDataProperty\<close> and the factory are only called here). The
  specification asks for prototype-chain semantics: an options view is an object with
  own properties that inherits the properties of its prototype. Objects live in a
  heap and are named by their address, so that what a function does to its own fresh
  object can be told from what it does to the caller's object. A property is a data
  property holding a value, or an accessor whose getter throws; a getter that returns
  a value reads like a data property.
\<close>

type_synonym addr = nat

datatype JSValue = Undefined | Null | Boolean bool | String string | Object addr

datatype Property = DataProperty JSValue | ThrowingGetter

record JSObject =
  prototype :: "addr option"
  properties :: "(string \<times> Property) list"

type_synonym Heap = "JSObject list"

datatype MessageTemplate =
    kInvalidTimeValue
  | kInvalidTimeZone string
  | kMethodInvokedOnWrongType
  | kIcuError
  | kUndefinedOrNullToObject

text \<open>
  The ways a function of the sources stops without a result: an exception it throws
  itself, an exception thrown by code it calls outside the sources (a getter of the
  options, a collaborator of \<^verbatim>\<open>Intl\<close>), an abort of the process by \<^verbatim>\<open>FATAL\<close>, or a
  statement the source marks \<^verbatim>\<open>UNREACHABLE\<close> or leaves undefined.
\<close>

datatype error =
    RangeError MessageTemplate
  | TypeError MessageTemplate
  | PendingException
  | Fatal
  | Unreachable

definition NewJSObjectWithNullProto :: "Heap \<Rightarrow> Heap \<times> addr" where
  "NewJSObjectWithNullProto h = (h @ [\<lparr>prototype = None, properties = []\<rparr>], length h)"

definition ObjectCreate :: "Heap \<Rightarrow> addr \<Rightarrow> Heap \<times> addr" where
  "ObjectCreate h proto = (h @ [\<lparr>prototype = Some proto, properties = []\<rparr>], length h)"

text \<open>
  \<^verbatim>\<open>ToObject\<close> throws on \<^verbatim>\<open>undefined\<close> and \<^verbatim>\<open>null\<close>, returns an object as it is, and
  wraps a primitive in a fresh object (whose inherited properties are not modelled).
\<close>

fun ToObject :: "Heap \<Rightarrow> JSValue \<Rightarrow> error + Heap \<times> addr" where
  "ToObject h (Object a) = Inr (h, a)"
| "ToObject h Undefined = Inl (TypeError kUndefinedOrNullToObject)"
| "ToObject h Null = Inl (TypeError kUndefinedOrNullToObject)"
| "ToObject h v = Inr (NewJSObjectWithNullProto h)"

text \<open>
  Reading a property walks the prototype chain. A chain of a heap of \<open>n\<close> objects has
  at most \<open>n\<close> links, so \<open>n\<close> steps reach its end.
\<close>

fun GetProperty_chain :: "nat \<Rightarrow> Heap \<Rightarrow> addr \<Rightarrow> string \<Rightarrow> error + JSValue" where
  "GetProperty_chain 0 h a name = Inr Undefined"
| "GetProperty_chain (Suc n) h a name =
     (if a < length h then
        (case map_of (properties (h ! a)) name of
           Some (DataProperty v) \<Rightarrow> Inr v
         | Some ThrowingGetter \<Rightarrow> Inl PendingException
         | None \<Rightarrow>
             (case prototype (h ! a) of
                None \<Rightarrow> Inr Undefined
              | Some p \<Rightarrow> GetProperty_chain n h p name))
      else Inr Undefined)"

definition GetPropertyOrElement :: "Heap \<Rightarrow> addr \<Rightarrow> string \<Rightarrow> error + JSValue" where
  "GetPropertyOrElement h a name = GetProperty_chain (length h) h a name"

text \<open>
  \<^verbatim>\<open>CreateDataProperty\<close> defines an own data property. The sources call it on objects
  they have just created, which are ordinary and extensible, so it does not fail. A
  new key goes after the keys the object has; an old key keeps its place.
\<close>

definition CreateDataProperty :: "Heap \<Rightarrow> addr \<Rightarrow> string \<Rightarrow> JSValue \<Rightarrow> Heap" where
  "CreateDataProperty h a name v =
     (if a < length h
      then h[a := (h ! a)\<lparr>properties := AList.update name (DataProperty v) (properties (h ! a))\<rparr>]
      else h)"

section \<open>Option defaults (js-date-time-format.cc, lines 570-675)\<close>

datatype RequiredOption = Required_kDate | Required_kTime | Required_kAny

datatype DefaultsOption = Defaults_kDate | Defaults_kTime | Defaults_kAll

definition IsPropertyUndefined :: "Heap \<Rightarrow> addr \<Rightarrow> string \<Rightarrow> error + bool" where
  "IsPropertyUndefined h options property =
     (case GetPropertyOrElement h options property of
        Inl e \<Rightarrow> Inl e
      | Inr v \<Rightarrow> Inr (v = Undefined))"

fun NeedsDefault_loop :: "Heap \<Rightarrow> addr \<Rightarrow> bool \<Rightarrow> string list \<Rightarrow> error + bool" where
  "NeedsDefault_loop h options needs_default [] = Inr needs_default"
| "NeedsDefault_loop h options needs_default (prop # props) =
     (case IsPropertyUndefined h options prop of
        Inl e \<Rightarrow> Inl e
      | Inr maybe_undefined \<Rightarrow>
          NeedsDefault_loop h options (if \<not> maybe_undefined then False else needs_default) props)"

definition NeedsDefault :: "Heap \<Rightarrow> addr \<Rightarrow> string list \<Rightarrow> error + bool" where
  "NeedsDefault h options props = NeedsDefault_loop h options True props"

fun CreateDefault :: "Heap \<Rightarrow> addr \<Rightarrow> string list \<Rightarrow> Heap" where
  "CreateDefault h options [] = h"
| "CreateDefault h options (prop # props) =
     CreateDefault (CreateDataProperty h options prop (String ''numeric'')) options props"

text \<open>Steps 3 to 5 of \<^verbatim>\<open>ToDateTimeOptions\<close>: the value of \<^verbatim>\<open>needs_default\<close>.\<close>

definition ToDateTimeOptions_needs_default :: "Heap \<Rightarrow> addr \<Rightarrow> RequiredOption \<Rightarrow> error + bool" where
  "ToDateTimeOptions_needs_default h options required =
     (case (if required = Required_kAny \<or> required = Required_kDate
            then NeedsDefault h options [''weekday'', ''year'', ''month'', ''day'']
            else Inr True) of
        Inl e \<Rightarrow> Inl e
      | Inr needs_default \<Rightarrow>
          if required = Required_kAny \<or> required = Required_kTime then
            (case NeedsDefault h options [''hour'', ''minute'', ''second''] of
               Inl e \<Rightarrow> Inl e
             | Inr maybe_needs_default \<Rightarrow> Inr (needs_default \<and> maybe_needs_default))
          else Inr needs_default)"

text \<open>Steps 6 and 7: the defaults are own properties of \<^verbatim>\<open>options\<close>.\<close>

definition ToDateTimeOptions_create_defaults :: "Heap \<Rightarrow> addr \<Rightarrow> DefaultsOption \<Rightarrow> Heap" where
  "ToDateTimeOptions_create_defaults h options defaults =
     (let h1 = (if defaults = Defaults_kAll \<or> defaults = Defaults_kDate
                then CreateDefault h options [''year'', ''month'', ''day''] else h)
      in if defaults = Defaults_kAll \<or> defaults = Defaults_kTime
         then CreateDefault h1 options [''hour'', ''minute'', ''second''] else h1)"

definition ToDateTimeOptions ::
  "Heap \<Rightarrow> JSValue \<Rightarrow> RequiredOption \<Rightarrow> DefaultsOption \<Rightarrow> error + Heap \<times> addr" where
  "ToDateTimeOptions h input_options required defaults =
     (case (if input_options = Undefined then Inr (NewJSObjectWithNullProto h)
            else (case ToObject h input_options of
                    Inl e \<Rightarrow> Inl e
                  | Inr (h1, options_obj) \<Rightarrow> Inr (ObjectCreate h1 options_obj))) of
        Inl e \<Rightarrow> Inl e
      | Inr (h2, options) \<Rightarrow>
          (case ToDateTimeOptions_needs_default h2 options required of
             Inl e \<Rightarrow> Inl e
           | Inr needs_default \<Rightarrow>
               if needs_default
               then Inr (ToDateTimeOptions_create_defaults h2 options defaults, options)
               else Inr (h2, options)))"

text \<open>A property is absent on an options view when reading it gives \<^verbatim>\<open>undefined\<close>.\<close>

definition option_absent :: "Heap \<Rightarrow> addr \<Rightarrow> string \<Rightarrow> bool" where
  "option_absent h options prop = (GetPropertyOrElement h options prop = Inr Undefined)"

definition own_property :: "JSObject \<Rightarrow> string \<Rightarrow> Property option" where
  "own_property obj name = map_of (properties obj) name"

section \<open>Pattern tables (js-date-time-format.cc, lines 32-177)\<close>

text \<open>
  \<^verbatim>\<open>PatternMap\<close> pairs a pattern token with the option value it stands for, and
  \<^verbatim>\<open>PatternItem\<close> lists the pairs of one property in the order of the source.
\<close>

record PatternMap =
  pm_pattern :: string
  pm_value :: string

record PatternItem =
  item_property :: string
  item_pairs :: "PatternMap list"
  item_allowed_values :: "string list"

definition kLongShort :: "string list" where
  "kLongShort = [''long'', ''short'']"

definition kNarrowLongShort :: "string list" where
  "kNarrowLongShort = [''narrow'', ''long'', ''short'']"

definition k2DigitNumeric :: "string list" where
  "k2DigitNumeric = [''2-digit'', ''numeric'']"

definition kNarrowLongShort2DigitNumeric :: "string list" where
  "kNarrowLongShort2DigitNumeric = [''narrow'', ''long'', ''short'', ''2-digit'', ''numeric'']"

definition GetPatternItems :: "PatternItem list" where
  "GetPatternItems =
     [\<lparr>item_property = ''weekday'',
       item_pairs =
         [\<lparr>pm_pattern = ''EEEEE'', pm_value = ''narrow''\<rparr>,
          \<lparr>pm_pattern = ''EEEE'', pm_value = ''long''\<rparr>,
          \<lparr>pm_pattern = ''EEE'', pm_value = ''short''\<rparr>,
          \<lparr>pm_pattern = ''ccccc'', pm_value = ''narrow''\<rparr>,
          \<lparr>pm_pattern = ''cccc'', pm_value = ''long''\<rparr>,
          \<lparr>pm_pattern = ''ccc'', pm_value = ''short''\<rparr>],
       item_allowed_values = kNarrowLongShort\<rparr>,
      \<lparr>item_property = ''era'',
       item_pairs =
         [\<lparr>pm_pattern = ''GGGGG'', pm_value = ''narrow''\<rparr>,
          \<lparr>pm_pattern = ''GGGG'', pm_value = ''long''\<rparr>,
          \<lparr>pm_pattern = ''GGG'', pm_value = ''short''\<rparr>],
       item_allowed_values = kNarrowLongShort\<rparr>,
      \<lparr>item_property = ''year'',
       item_pairs =
         [\<lparr>pm_pattern = ''yy'', pm_value = ''2-digit''\<rparr>,
          \<lparr>pm_pattern = ''y'', pm_value = ''numeric''\<rparr>],
       item_allowed_values = k2DigitNumeric\<rparr>,
      \<lparr>item_property = ''month'',
       item_pairs =
         [\<lparr>pm_pattern = ''MMMMM'', pm_value = ''narrow''\<rparr>,
          \<lparr>pm_pattern = ''MMMM'', pm_value = ''long''\<rparr>,
          \<lparr>pm_pattern = ''MMM'', pm_value = ''short''\<rparr>,
          \<lparr>pm_pattern = ''MM'', pm_value = ''2-digit''\<rparr>,
          \<lparr>pm_pattern = ''M'', pm_value = ''numeric''\<rparr>,
          \<lparr>pm_pattern = ''LLLLL'', pm_value = ''narrow''\<rparr>,
          \<lparr>pm_pattern = ''LLLL'', pm_value = ''long''\<rparr>,
          \<lparr>pm_pattern = ''LLL'', pm_value = ''short''\<rparr>,
          \<lparr>pm_pattern = ''LL'', pm_value = ''2-digit''\<rparr>,
          \<lparr>pm_pattern = ''L'', pm_value = ''numeric''\<rparr>],
       item_allowed_values = kNarrowLongShort2DigitNumeric\<rparr>,
      \<lparr>item_property = ''day'',
       item_pairs =
         [\<lparr>pm_pattern = ''dd'', pm_value = ''2-digit''\<rparr>,
          \<lparr>pm_pattern = ''d'', pm_value = ''numeric''\<rparr>],
       item_allowed_values = k2DigitNumeric\<rparr>,
      \<lparr>item_property = ''hour'',
       item_pairs =
         [\<lparr>pm_pattern = ''HH'', pm_value = ''2-digit''\<rparr>,
          \<lparr>pm_pattern = ''H'', pm_value = ''numeric''\<rparr>,
          \<lparr>pm_pattern = ''hh'', pm_value = ''2-digit''\<rparr>,
          \<lparr>pm_pattern = ''h'', pm_value = ''numeric''\<rparr>,
          \<lparr>pm_pattern = ''kk'', pm_value = ''2-digit''\<rparr>,
          \<lparr>pm_pattern = ''k'', pm_value = ''numeric''\<rparr>,
          \<lparr>pm_pattern = ''KK'', pm_value = ''2-digit''\<rparr>,
          \<lparr>pm_pattern = ''K'', pm_value = ''numeric''\<rparr>],
       item_allowed_values = k2DigitNumeric\<rparr>,
      \<lparr>item_property = ''minute'',
       item_pairs =
         [\<lparr>pm_pattern = ''mm'', pm_value = ''2-digit''\<rparr>,
          \<lparr>pm_pattern = ''m'', pm_value = ''numeric''\<rparr>],
       item_allowed_values = k2DigitNumeric\<rparr>,
      \<lparr>item_property = ''second'',
       item_pairs =
         [\<lparr>pm_pattern = ''ss'', pm_value = ''2-digit''\<rparr>,
          \<lparr>pm_pattern = ''s'', pm_value = ''numeric''\<rparr>],
       item_allowed_values = k2DigitNumeric\<rparr>,
      \<lparr>item_property = ''timeZoneName'',
       item_pairs =
         [\<lparr>pm_pattern = ''zzzz'', pm_value = ''long''\<rparr>,
          \<lparr>pm_pattern = ''z'', pm_value = ''short''\<rparr>],
       item_allowed_values = kLongShort\<rparr>]"

text \<open>
  \<^verbatim>\<open>PatternData\<close> holds a \<^verbatim>\<open>std::map\<close> from option value to pattern token. Its
  constructor fills the map with \<^verbatim>\<open>insert\<close>, which keeps the entry a key already has.
\<close>

record PatternData =
  data_property :: string
  data_map :: "(string \<times> string) list"
  data_allowed_values :: "string list"

definition map_insert :: "(string \<times> string) list \<Rightarrow> string \<times> string \<Rightarrow> (string \<times> string) list" where
  "map_insert m kv = (if map_of m (fst kv) = None then m @ [kv] else m)"

definition new_PatternData :: "string \<Rightarrow> PatternMap list \<Rightarrow> string list \<Rightarrow> PatternData" where
  "new_PatternData property pairs allowed_values =
     \<lparr>data_property = property,
      data_map = foldl (\<lambda>m pair. map_insert m (pm_value pair, pm_pattern pair)) [] pairs,
      data_allowed_values = allowed_values\<rparr>"

definition CreateCommonData :: "PatternData \<Rightarrow> PatternData list" where
  "CreateCommonData hour_data =
     map (\<lambda>item. if item_property item = ''hour'' then hour_data
                  else new_PatternData (item_property item) (item_pairs item)
                         (item_allowed_values item))
       GetPatternItems"

definition CreateData :: "string \<Rightarrow> string \<Rightarrow> PatternData list" where
  "CreateData digit2_pattern numeric_pattern =
     CreateCommonData
       (new_PatternData ''hour''
          [\<lparr>pm_pattern = digit2_pattern, pm_value = ''2-digit''\<rparr>,
           \<lparr>pm_pattern = numeric_pattern, pm_value = ''numeric''\<rparr>]
          [''2-digit'', ''numeric''])"

datatype HourCycle = kUndefined | kH11 | kH12 | kH23 | kH24

fun GetPatternData :: "HourCycle \<Rightarrow> PatternData list" where
  "GetPatternData kH11 = CreateData ''KK'' ''K''"
| "GetPatternData kH12 = CreateData ''hh'' ''h''"
| "GetPatternData kH23 = CreateData ''HH'' ''H''"
| "GetPatternData kH24 = CreateData ''kk'' ''k''"
| "GetPatternData kUndefined = CreateData ''jj'' ''j''"

text \<open>
  \<^verbatim>\<open>std::string::find\<close>: the first position at which the argument occurs, or
  \<^verbatim>\<open>npos\<close> (here \<open>None\<close>) when it occurs nowhere.
\<close>

fun string_find_from :: "nat \<Rightarrow> string \<Rightarrow> string \<Rightarrow> nat option" where
  "string_find_from pos [] str = (if str = [] then Some pos else None)"
| "string_find_from pos (c # cs) str =
     (if take (length str) (c # cs) = str then Some pos
      else string_find_from (pos + 1) cs str)"

definition string_find :: "string \<Rightarrow> string \<Rightarrow> nat option" where
  "string_find s str = string_find_from 0 s str"

section \<open>Collaborators outside the sources\<close>

text \<open>
  A \<^verbatim>\<open>Maybe<T>\<close> of V8 is \<^verbatim>\<open>Nothing\<close> when the callee has thrown (the exception is
  pending in the isolate) and \<^verbatim>\<open>Just\<close> a value otherwise.
\<close>

datatype 'a Maybe = Nothing | Just 'a

definition from_Maybe :: "'a Maybe \<Rightarrow> error + 'a" where
  "from_Maybe m = (case m of Nothing \<Rightarrow> Inl PendingException | Just x \<Rightarrow> Inr x)"

definition and_then :: "error + 'a \<Rightarrow> ('a \<Rightarrow> error + 'b) \<Rightarrow> error + 'b" where
  "and_then m f = (case m of Inl e \<Rightarrow> Inl e | Inr x \<Rightarrow> f x)"

text \<open>
  A \<^verbatim>\<open>double\<close> is not a number, an infinity (\<open>True\<close> for the positive one) or a finite
  number.
\<close>

datatype double = NaN | Infinity bool | Finite real

definition isnan :: "double \<Rightarrow> bool" where
  "isnan x = (x = NaN)"

text \<open>
  A text produced by the format engine is the list of its UTF-16 code units, which is
  what \<^verbatim>\<open>icu::UnicodeString\<close> and the strings of the host index and count.
\<close>

type_synonym UChar = "16 word"

type_synonym UnicodeString = "UChar list"

definition ascii :: "string \<Rightarrow> UnicodeString" where
  "ascii s = map (\<lambda>c. of_nat (of_char c)) s"

text \<open>
  \<^verbatim>\<open>icu::Locale\<close>: the base name and the keywords, a keyword being named here by its
  Unicode extension key (\<open>ca\<close>, \<open>nu\<close>, \<open>hc\<close>). \<^verbatim>\<open>setKeywordValue\<close> with a null value
  removes the keyword.
\<close>

record Locale =
  base_name :: string
  locale_keywords :: "(string \<times> string) list"

definition getBaseName_Locale :: "Locale \<Rightarrow> Locale" where
  "getBaseName_Locale l = \<lparr>base_name = base_name l, locale_keywords = []\<rparr>"

definition setKeywordValue :: "Locale \<Rightarrow> string \<Rightarrow> string option \<Rightarrow> Locale" where
  "setKeywordValue l key v =
     (case v of
        None \<Rightarrow> l\<lparr>locale_keywords := AList.delete key (locale_keywords l)\<rparr>
      | Some s \<Rightarrow> l\<lparr>locale_keywords := AList.update key s (locale_keywords l)\<rparr>)"

record ResolvedLocale =
  r_icu_locale :: Locale
  r_extensions :: "(string \<times> string) list"

record Calendar =
  calendar_type :: string
  time_zone :: string
  is_gregorian :: bool
  gregorian_change :: "real option"

record SimpleDateFormat =
  sdf_pattern :: string
  sdf_locale :: Locale
  sdf_calendar :: Calendar

text \<open>
  The field ids of \<^verbatim>\<open>unicode/udat.h\<close> that \<^verbatim>\<open>IcuDateFieldIdToDateType\<close> names, and any
  other id.
\<close>

datatype UDateFormatField =
    UDAT_YEAR_FIELD | UDAT_EXTENDED_YEAR_FIELD | UDAT_YEAR_NAME_FIELD
  | UDAT_MONTH_FIELD | UDAT_STANDALONE_MONTH_FIELD
  | UDAT_DATE_FIELD
  | UDAT_HOUR_OF_DAY1_FIELD | UDAT_HOUR_OF_DAY0_FIELD | UDAT_HOUR1_FIELD | UDAT_HOUR0_FIELD
  | UDAT_MINUTE_FIELD
  | UDAT_SECOND_FIELD
  | UDAT_DAY_OF_WEEK_FIELD | UDAT_DOW_LOCAL_FIELD | UDAT_STANDALONE_DAY_FIELD
  | UDAT_AM_PM_FIELD
  | UDAT_TIMEZONE_FIELD | UDAT_TIMEZONE_RFC_FIELD | UDAT_TIMEZONE_GENERIC_FIELD
  | UDAT_TIMEZONE_SPECIAL_FIELD | UDAT_TIMEZONE_LOCALIZED_GMT_OFFSET_FIELD
  | UDAT_TIMEZONE_ISO_FIELD | UDAT_TIMEZONE_ISO_LOCAL_FIELD
  | UDAT_ERA_FIELD
  | UDAT_OTHER_FIELD nat

record FieldPosition =
  fp_field :: UDateFormatField
  fp_beginIndex :: int
  fp_endIndex :: int

text \<open>
  The format engine (ICU), as far as the sources call it. A time zone is named by its
  id; \<^verbatim>\<open>createTimeZone\<close> gives the zone \<open>Etc/Unknown\<close> for an id it does not know;
  \<open>None\<close> stands for a failure status. \<open>icu_format_positions\<close> is \<^verbatim>\<open>format\<close> with a
  \<^verbatim>\<open>FieldPositionIterator\<close>: whether the status is a failure, the text, and the field
  positions in the order the iterator gives them.
\<close>

record ICU =
  icu_TimeZone_createDefault :: string
  icu_TimeZone_createTimeZone :: "string \<Rightarrow> string"
  icu_TimeZone_getCanonicalID :: "string \<Rightarrow> string option"
  icu_Calendar_createInstance :: "string \<Rightarrow> Locale \<Rightarrow> Calendar option"
  icu_DateTimePatternGenerator_createInstance :: "Locale \<Rightarrow> bool"
  icu_getBestPattern :: "Locale \<Rightarrow> string \<Rightarrow> string"
  icu_new_SimpleDateFormat :: "string \<Rightarrow> Locale \<Rightarrow> SimpleDateFormat option"
  icu_format_positions :: "SimpleDateFormat \<Rightarrow> double \<Rightarrow> bool \<times> UnicodeString \<times> FieldPosition list"
  icu_DateFormat_getAvailableLocales :: "string list"

text \<open>
  Modelled from the spec: the engine's \<^verbatim>\<open>format\<close> and its
  \<^verbatim>\<open>formatWithFieldPositions\<close> render a time value with one formatter, the second
  giving the field spans of the formatted string with it. So \<^verbatim>\<open>format\<close> without the
  iterator, which \<^verbatim>\<open>FormatDateTime\<close> calls, gives the text that comes with the field
  positions.
\<close>

definition icu_format :: "ICU \<Rightarrow> SimpleDateFormat \<Rightarrow> double \<Rightarrow> UnicodeString" where
  "icu_format icu date_format date_value =
     fst (snd (icu_format_positions icu date_format date_value))"

datatype MatcherOption = kLookup | kBestFit

datatype FormatMatcherOption = FormatMatcher_kBestFit | FormatMatcher_kBasic

text \<open>
  The functions of \<^verbatim>\<open>Intl\<close> and of the host that the sources call and do not define.
  An option getter reads the options object in the heap; it answers \<^verbatim>\<open>Nothing\<close> when
  it throws (a getter of the object, a conversion, a value outside the allowed ones),
  \<open>Just None\<close> when the option is \<^verbatim>\<open>undefined\<close> (the source sees \<^verbatim>\<open>Just(false)\<close>), and
  \<open>Just (Some v)\<close> when it has found the value \<open>v\<close> (\<^verbatim>\<open>Just(true)\<close>, the value in the
  out parameter). \<^verbatim>\<open>GetHourCycle\<close> answers \<^const>\<open>kUndefined\<close> for an absent option.
  \<^verbatim>\<open>kMaxTimeInMs\<close> is the bound of the representable date range, in milliseconds on
  either side of the epoch.
\<close>

record Intl =
  CanonicalizeLocaleList :: "Heap \<Rightarrow> JSValue \<Rightarrow> string list Maybe"
  GetLocaleMatcher :: "Heap \<Rightarrow> addr \<Rightarrow> MatcherOption Maybe"
  GetBoolOption :: "Heap \<Rightarrow> addr \<Rightarrow> string \<Rightarrow> bool option Maybe"
  GetHourCycle :: "Heap \<Rightarrow> addr \<Rightarrow> HourCycle Maybe"
  GetStringOption :: "Heap \<Rightarrow> addr \<Rightarrow> string \<Rightarrow> string list \<Rightarrow> string option Maybe"
  GetFormatMatcher :: "Heap \<Rightarrow> addr \<Rightarrow> FormatMatcherOption Maybe"
  ResolveLocale :: "string set \<Rightarrow> string list \<Rightarrow> MatcherOption \<Rightarrow> string set \<Rightarrow> ResolvedLocale"
  ToHourCycle :: "string \<Rightarrow> HourCycle"
  BuildLocaleSet :: "string list \<Rightarrow> string set"
  ToLanguageTag :: "Locale \<Rightarrow> string Maybe"
  GetNumberingSystem :: "Locale \<Rightarrow> string"
  kMaxTimeInMs :: real

text \<open>
  Modelled from the spec: \<^verbatim>\<open>DateCache::TimeClip\<close> is not among the sources. It is the
  range-clipping of the specification: a time value that is not a number, is infinite
  or lies outside the representable date range becomes not a number; any other is cut
  to a whole number of milliseconds, towards zero.
\<close>

definition DoubleToInteger :: "real \<Rightarrow> real" where
  "DoubleToInteger r = (if r < 0 then of_int \<lceil>r\<rceil> else of_int \<lfloor>r\<rfloor>)"

definition TimeClip :: "Intl \<Rightarrow> double \<Rightarrow> double" where
  "TimeClip I x =
     (case x of
        Finite r \<Rightarrow>
          if - kMaxTimeInMs I \<le> r \<and> r \<le> kMaxTimeInMs I then Finite (DoubleToInteger r) else NaN
      | _ \<Rightarrow> NaN)"

text \<open>
  The time values the specification calls invalid: not a number, or outside the
  representable date range (as the infinities are).
\<close>

definition time_value_invalid :: "Intl \<Rightarrow> double \<Rightarrow> bool" where
  "time_value_invalid I x =
     (case x of
        NaN \<Rightarrow> True
      | Infinity positive \<Rightarrow> True
      | Finite r \<Rightarrow> r < - kMaxTimeInMs I \<or> kMaxTimeInMs I < r)"

section \<open>The formatter object and its construction (lines 705-1033)\<close>

definition IsValidTimeZoneName :: "ICU \<Rightarrow> string \<Rightarrow> bool" where
  "IsValidTimeZoneName icu tz =
     (case icu_TimeZone_getCanonicalID icu tz of
        None \<Rightarrow> False
      | Some canonical \<Rightarrow> canonical \<noteq> ''Etc/Unknown'')"

definition CreateTimeZone :: "ICU \<Rightarrow> string option \<Rightarrow> string option" where
  "CreateTimeZone icu timezone =
     (case timezone of
        None \<Rightarrow> Some (icu_TimeZone_createDefault icu)
      | Some name \<Rightarrow>
          (let canonicalized = CanonicalizeTimeZoneID name in
           if canonicalized = [] then None
           else (let tz = icu_TimeZone_createTimeZone icu canonicalized in
                 if \<not> IsValidTimeZoneName icu tz then None else Some tz)))"

text \<open>
  \<^verbatim>\<open>CreateCalendar\<close> gives no calendar when the time zone is refused; a failure of
  \<^verbatim>\<open>Calendar::createInstance\<close> fails a \<^verbatim>\<open>CHECK\<close>, which ends the process.
\<close>

definition CreateCalendar :: "ICU \<Rightarrow> Locale \<Rightarrow> string option \<Rightarrow> error + Calendar option" where
  "CreateCalendar icu loc timezone =
     (case CreateTimeZone icu timezone of
        None \<Rightarrow> Inr None
      | Some tz \<Rightarrow>
          (case icu_Calendar_createInstance icu tz loc of
             None \<Rightarrow> Inl Fatal
           | Some calendar \<Rightarrow>
               Inr (Some (if is_gregorian calendar
                          then calendar\<lparr>gregorian_change := Some (- 9007199254740992)\<rparr>
                          else calendar))))"

definition CreateICUDateFormat :: "ICU \<Rightarrow> Locale \<Rightarrow> string \<Rightarrow> SimpleDateFormat option" where
  "CreateICUDateFormat icu loc skeleton =
     (let no_extension_locale = getBaseName_Locale loc;
          pattern = (if icu_DateTimePatternGenerator_createInstance icu no_extension_locale
                     then icu_getBestPattern icu no_extension_locale skeleton else [])
      in icu_new_SimpleDateFormat icu pattern loc)"

definition HourCycleDefault :: "SimpleDateFormat \<Rightarrow> HourCycle" where
  "HourCycleDefault date_format =
     (let pattern = sdf_pattern date_format in
      if CHR ''K'' \<in> set pattern then kH11
      else if CHR ''h'' \<in> set pattern then kH12
      else if CHR ''H'' \<in> set pattern then kH23
      else if CHR ''k'' \<in> set pattern then kH24
      else kUndefined)"

definition GetAvailableLocales :: "Intl \<Rightarrow> ICU \<Rightarrow> string set" where
  "GetAvailableLocales I icu = BuildLocaleSet I (icu_DateFormat_getAvailableLocales icu)"

text \<open>
  The hour cycle of \<^verbatim>\<open>Initialize\<close> before the pattern is generated. Step 8 clears the
  \<^verbatim>\<open>hourCycle\<close> option when \<^verbatim>\<open>hour12\<close> was found (lines 858-862); the extension \<open>hc\<close>
  of the resolved locale is used when neither option was given (lines 882-888); and
  \<^verbatim>\<open>hour12\<close> selects \<open>h12\<close> or \<open>h23\<close> when the cycle is still undefined (lines 911-922).
\<close>

definition Initialize_step8 :: "bool option \<Rightarrow> HourCycle \<Rightarrow> HourCycle" where
  "Initialize_step8 maybe_get_hour12 maybe_hour_cycle =
     (if maybe_get_hour12 \<noteq> None then kUndefined else maybe_hour_cycle)"

definition Initialize_hour_cycle ::
  "Intl \<Rightarrow> bool option \<Rightarrow> HourCycle \<Rightarrow> ResolvedLocale \<Rightarrow> HourCycle" where
  "Initialize_hour_cycle I maybe_get_hour12 maybe_hour_cycle r =
     (let hour_cycle0 = Initialize_step8 maybe_get_hour12 maybe_hour_cycle;
          hour_cycle1 =
            (if maybe_get_hour12 = None \<and> hour_cycle0 = kUndefined then
               (case map_of (r_extensions r) ''hc'' of
                  Some hc_extension \<Rightarrow> ToHourCycle I hc_extension
                | None \<Rightarrow> hour_cycle0)
             else hour_cycle0)
      in if hour_cycle1 = kUndefined then
           (case maybe_get_hour12 of
              Some hour12 \<Rightarrow> if hour12 then kH12 else kH23
            | None \<Rightarrow> hour_cycle1)
         else hour_cycle1)"

text \<open>
  The loop over the table of step 22 (lines 927-944). A value that the getter returns
  and the map of the row does not hold would dereference \<^verbatim>\<open>end()\<close>.
\<close>

fun Initialize_skeleton ::
  "Intl \<Rightarrow> Heap \<Rightarrow> addr \<Rightarrow> bool \<Rightarrow> string \<Rightarrow> PatternData list \<Rightarrow> error + bool \<times> string" where
  "Initialize_skeleton I h options has_hour_option skeleton [] =
     Inr (has_hour_option, skeleton)"
| "Initialize_skeleton I h options has_hour_option skeleton (item # items) =
     (case GetStringOption I h options (data_property item) (data_allowed_values item) of
        Nothing \<Rightarrow> Inl PendingException
      | Just None \<Rightarrow> Initialize_skeleton I h options has_hour_option skeleton items
      | Just (Some input) \<Rightarrow>
          (case map_of (data_map item) input of
             None \<Rightarrow> Inl Unreachable
           | Some token \<Rightarrow>
               Initialize_skeleton I h options
                 (if data_property item = ''hour'' then True else has_hour_option)
                 (skeleton @ token) items))"

text \<open>Lines 961-970: a second attempt without the extensions, then \<^verbatim>\<open>FATAL\<close>.\<close>

definition Initialize_date_format ::
  "ICU \<Rightarrow> Locale \<Rightarrow> string \<Rightarrow> error + Locale \<times> SimpleDateFormat" where
  "Initialize_date_format icu loc skeleton =
     (case CreateICUDateFormat icu loc skeleton of
        Some date_format \<Rightarrow> Inr (loc, date_format)
      | None \<Rightarrow>
          (let loc1 = getBaseName_Locale loc in
           case CreateICUDateFormat icu loc1 skeleton of
             Some date_format \<Rightarrow> Inr (loc1, date_format)
           | None \<Rightarrow> Inl Fatal))"

text \<open>Step 29 and 30 (lines 977-994): the hour cycle stored in the formatter.\<close>

definition Initialize_stored_hour_cycle :: "bool \<Rightarrow> HourCycle \<Rightarrow> SimpleDateFormat \<Rightarrow> HourCycle" where
  "Initialize_stored_hour_cycle has_hour_option hour_cycle date_format =
     (if has_hour_option then
        (let hc_default = HourCycleDefault date_format;
             hc = hour_cycle
         in if hc = kUndefined then hc_default else hc)
      else kUndefined)"

text \<open>Lines 1009-1021: the extension \<open>hc\<close> is removed when it disagrees.\<close>

definition Initialize_reconcile ::
  "Intl \<Rightarrow> bool option \<Rightarrow> HourCycle \<Rightarrow> ResolvedLocale \<Rightarrow> HourCycle \<Rightarrow> Locale \<Rightarrow> Locale" where
  "Initialize_reconcile I maybe_get_hour12 maybe_hour_cycle r stored loc =
     (if maybe_get_hour12 \<noteq> None \<or> maybe_hour_cycle \<noteq> kUndefined then
        (case map_of (r_extensions r) ''hc'' of
           Some hc_extension \<Rightarrow>
             if stored \<noteq> ToHourCycle I hc_extension then setKeywordValue loc ''hc'' None
             else loc
         | None \<Rightarrow> loc)
      else loc)"

text \<open>
  The formatter object: the locale, the engine's formatter and the hour cycle (kept in
  the flags of the object).
\<close>

record JSDateTimeFormat =
  icu_locale :: Locale
  icu_simple_date_format :: SimpleDateFormat
  hour_cycle :: HourCycle

definition Initialize ::
  "Intl \<Rightarrow> ICU \<Rightarrow> Heap \<Rightarrow> JSValue \<Rightarrow> JSValue \<Rightarrow> error + JSDateTimeFormat" where
  "Initialize I icu h locales input_options =
     and_then (from_Maybe (CanonicalizeLocaleList I h locales)) (\<lambda>requested_locales.
     and_then (ToDateTimeOptions h input_options Required_kAny Defaults_kDate) (\<lambda>(h1, options).
     and_then (from_Maybe (GetLocaleMatcher I h1 options)) (\<lambda>locale_matcher.
     and_then (from_Maybe (GetBoolOption I h1 options ''hour12'')) (\<lambda>maybe_get_hour12.
     and_then (from_Maybe (GetHourCycle I h1 options)) (\<lambda>maybe_hour_cycle.
     let r = ResolveLocale I (GetAvailableLocales I icu) requested_locales locale_matcher
               {''nu'', ''ca'', ''hc''};
         hour_cycle = Initialize_hour_cycle I maybe_get_hour12 maybe_hour_cycle r
     in
     and_then (from_Maybe (GetStringOption I h1 options ''timeZone'' [])) (\<lambda>timezone.
     and_then (CreateCalendar icu (r_icu_locale r) timezone) (\<lambda>calendar.
     case calendar of
       None \<Rightarrow> Inl (RangeError (kInvalidTimeZone (case timezone of Some tz \<Rightarrow> tz | None \<Rightarrow> [])))
     | Some calendar1 \<Rightarrow>
     and_then (Initialize_skeleton I h1 options False [] (GetPatternData hour_cycle))
       (\<lambda>(has_hour_option, skeleton).
     and_then (from_Maybe (GetFormatMatcher I h1 options)) (\<lambda>format_matcher.
     and_then (Initialize_date_format icu (r_icu_locale r) skeleton) (\<lambda>(loc, date_format0).
     let date_format = date_format0\<lparr>sdf_calendar := calendar1\<rparr>;
         stored = Initialize_stored_hour_cycle has_hour_option hour_cycle date_format
     in Inr \<lparr>icu_locale = Initialize_reconcile I maybe_get_hour12 maybe_hour_cycle r stored loc,
             icu_simple_date_format = date_format,
             hour_cycle = stored\<rparr>))))))))))"

section \<open>Resolved options (lines 276-435)\<close>

definition HourCycleAsString :: "HourCycle \<Rightarrow> string" where
  "HourCycleAsString hc =
     (case hc of
        kUndefined \<Rightarrow> ''undefined''
      | kH11 \<Rightarrow> ''h11''
      | kH12 \<Rightarrow> ''h12''
      | kH23 \<Rightarrow> ''h23''
      | kH24 \<Rightarrow> ''h24'')"

text \<open>
  The result of \<^verbatim>\<open>ResolvedOptions\<close> is a new object; the model returns its own
  properties in the order of their creation. A time zone id is a string of the host
  already (the conversion of the canonical id is taken to succeed), and the pattern is
  the UTF-8 text that the source searches.
\<close>

definition define_own_property ::
  "(string \<times> Property) list \<Rightarrow> string \<Rightarrow> JSValue \<Rightarrow> (string \<times> Property) list" where
  "define_own_property ps name v = AList.update name (DataProperty v) ps"

text \<open>The inner loop of lines 421-431 leaves at the first pair whose pattern is found.\<close>

fun ResolvedOptions_pairs :: "string \<Rightarrow> PatternMap list \<Rightarrow> string option" where
  "ResolvedOptions_pairs pattern [] = None"
| "ResolvedOptions_pairs pattern (pair # pairs) =
     (if string_find pattern (pm_pattern pair) \<noteq> None then Some (pm_value pair)
      else ResolvedOptions_pairs pattern pairs)"

fun ResolvedOptions_items ::
  "string \<Rightarrow> (string \<times> Property) list \<Rightarrow> PatternItem list \<Rightarrow> (string \<times> Property) list" where
  "ResolvedOptions_items pattern options [] = options"
| "ResolvedOptions_items pattern options (item # items) =
     ResolvedOptions_items pattern
       (case ResolvedOptions_pairs pattern (item_pairs item) of
          None \<Rightarrow> options
        | Some v \<Rightarrow> define_own_property options (item_property item) (String v))
       items"

definition ResolvedOptions ::
  "Intl \<Rightarrow> ICU \<Rightarrow> JSDateTimeFormat \<Rightarrow> error + (string \<times> Property) list" where
  "ResolvedOptions I icu date_time_format =
     and_then (from_Maybe (ToLanguageTag I (icu_locale date_time_format))) (\<lambda>locale_str.
     let date_format = icu_simple_date_format date_time_format;
         calendar = sdf_calendar date_format;
         calendar_str0 = calendar_type calendar;
         calendar_str =
           (if calendar_str0 = ''gregorian'' then ''gregory''
            else if calendar_str0 = ''ethiopic-amete-alem'' then ''ethioaa''
            else calendar_str0);
         timezone_value =
           (case icu_TimeZone_getCanonicalID icu (time_zone calendar) of
              Some canonical_time_zone \<Rightarrow>
                if canonical_time_zone = ''Etc/UTC'' \<or> canonical_time_zone = ''Etc/GMT''
                then String ''UTC'' else String canonical_time_zone
            | None \<Rightarrow> Undefined);
         numbering_system = GetNumberingSystem I (icu_locale date_time_format);
         pattern = sdf_pattern date_format;
         options1 = define_own_property [] ''locale'' (String locale_str);
         options2 = define_own_property options1 ''calendar'' (String calendar_str);
         options3 =
           (if numbering_system \<noteq> []
            then define_own_property options2 ''numberingSystem'' (String numbering_system)
            else options2);
         options4 = define_own_property options3 ''timeZone'' timezone_value;
         hc = hour_cycle date_time_format;
         options5 =
           (if hc \<noteq> kUndefined then
              (let options_hc =
                     define_own_property options4 ''hourCycle'' (String (HourCycleAsString hc))
               in case hc of
                    kH11 \<Rightarrow> define_own_property options_hc ''hour12'' (Boolean True)
                  | kH12 \<Rightarrow> define_own_property options_hc ''hour12'' (Boolean True)
                  | kH23 \<Rightarrow> define_own_property options_hc ''hour12'' (Boolean False)
                  | kH24 \<Rightarrow> define_own_property options_hc ''hour12'' (Boolean False)
                  | kUndefined \<Rightarrow> options_hc)
            else options4)
     in Inr (ResolvedOptions_items pattern options5 GetPatternItems))"

text \<open>
  The reverse map in the specification's words: for each field in table order, the
  value of the first pair whose token occurs in the pattern, and nothing for a field
  none of whose tokens occurs.
\<close>

definition reverse_map :: "string \<Rightarrow> (string \<times> Property) list" where
  "reverse_map pattern =
     List.map_filter
       (\<lambda>item. map_option (\<lambda>pair. (item_property item, DataProperty (String (pm_value pair))))
                 (find (\<lambda>pair. sublist (pm_pattern pair) pattern) (item_pairs item)))
       GetPatternItems"

text \<open>
  The order of a pair list as claimed (no token is longer than one listed before it),
  and as the source has it: a token is never a part of a token listed after it, so
  that of two tokens one of which contains the other the longer one comes first.
\<close>

definition longest_token_first :: "PatternItem \<Rightarrow> bool" where
  "longest_token_first item =
     sorted_wrt (\<lambda>t u. length u \<le> length t) (map pm_pattern (item_pairs item))"

definition containing_token_first :: "PatternItem \<Rightarrow> bool" where
  "containing_token_first item =
     sorted_wrt (\<lambda>t u. \<not> sublist t u) (map pm_pattern (item_pairs item))"

section \<open>Formatting (lines 437-566 and 1035-1144)\<close>

text \<open>
  \<^verbatim>\<open>Intl::ToString\<close> turns a text of the engine into a string of the host with the
  same code units. It is taken to succeed: it fails only for a text longer than the
  host allows. The same holds for the allocation of the formatter object in
  \<^verbatim>\<open>ToLocaleDateTime\<close>.
\<close>

definition FormatDateTime :: "Intl \<Rightarrow> ICU \<Rightarrow> SimpleDateFormat \<Rightarrow> double \<Rightarrow> error + UnicodeString" where
  "FormatDateTime I icu date_format x =
     (let date_value = TimeClip I x in
      if isnan date_value then Inl (RangeError kInvalidTimeValue)
      else Inr (icu_format icu date_format date_value))"

datatype ICUObjectCacheType =
    kDefaultSimpleDateFormatForDate
  | kDefaultSimpleDateFormatForTime
  | kDefaultSimpleDateFormat

fun ConvertToCacheType :: "DefaultsOption \<Rightarrow> ICUObjectCacheType" where
  "ConvertToCacheType Defaults_kDate = kDefaultSimpleDateFormatForDate"
| "ConvertToCacheType Defaults_kTime = kDefaultSimpleDateFormatForTime"
| "ConvertToCacheType Defaults_kAll = kDefaultSimpleDateFormat"

text \<open>
  The receiver of \<^verbatim>\<open>ToLocaleDateTime\<close> is a date object holding a time value, or some
  other value. The cache of the isolate holds at most one formatter for each cache
  type; the function returns it with its result.
\<close>

datatype Receiver = JSDate double | NotJSDate

type_synonym ICUObjectCache = "ICUObjectCacheType \<Rightarrow> SimpleDateFormat option"

text \<open>Modelled from the spec: the root string \<^verbatim>\<open>Invalid_Date_string\<close> of the factory.\<close>

definition Invalid_Date_string :: UnicodeString where
  "Invalid_Date_string = ascii ''Invalid Date''"

definition ToLocaleDateTime ::
  "Intl \<Rightarrow> ICU \<Rightarrow> ICUObjectCache \<Rightarrow> Heap \<Rightarrow> Receiver \<Rightarrow> JSValue \<Rightarrow> JSValue \<Rightarrow>
     RequiredOption \<Rightarrow> DefaultsOption \<Rightarrow> (error + UnicodeString) \<times> ICUObjectCache" where
  "ToLocaleDateTime I icu cache h date locales options required defaults =
     (let cache_type = ConvertToCacheType defaults in
      case date of
        NotJSDate \<Rightarrow> (Inl (TypeError kMethodInvokedOnWrongType), cache)
      | JSDate x \<Rightarrow>
          if isnan x then (Inr Invalid_Date_string, cache)
          else
            (let can_cache = (locales = Undefined \<and> options = Undefined) in
             case (if can_cache then cache cache_type else None) of
               Some cached_icu_simple_date_format \<Rightarrow>
                 (FormatDateTime I icu cached_icu_simple_date_format x, cache)
             | None \<Rightarrow>
                 (case ToDateTimeOptions h options required defaults of
                    Inl e \<Rightarrow> (Inl e, cache)
                  | Inr (h1, internal_options) \<Rightarrow>
                      (case Initialize I icu h1 locales (Object internal_options) of
                         Inl e \<Rightarrow> (Inl e, cache)
                       | Inr date_time_format \<Rightarrow>
                           (FormatDateTime I icu (icu_simple_date_format date_time_format) x,
                            if can_cache
                            then cache(cache_type := Some (icu_simple_date_format date_time_format))
                            else cache)))))"

text \<open>
  \<^verbatim>\<open>IcuDateFieldIdToDateType\<close>; the id \<open>-1\<close>, which only \<^verbatim>\<open>FormatToParts\<close> passes, is
  \<open>None\<close>. An id the switch does not list is \<^verbatim>\<open>UNREACHABLE\<close>.
\<close>

fun IcuDateFieldIdToDateType :: "UDateFormatField option \<Rightarrow> error + string" where
  "IcuDateFieldIdToDateType None = Inr ''literal''"
| "IcuDateFieldIdToDateType (Some UDAT_YEAR_FIELD) = Inr ''year''"
| "IcuDateFieldIdToDateType (Some UDAT_EXTENDED_YEAR_FIELD) = Inr ''year''"
| "IcuDateFieldIdToDateType (Some UDAT_YEAR_NAME_FIELD) = Inr ''year''"
| "IcuDateFieldIdToDateType (Some UDAT_MONTH_FIELD) = Inr ''month''"
| "IcuDateFieldIdToDateType (Some UDAT_STANDALONE_MONTH_FIELD) = Inr ''month''"
| "IcuDateFieldIdToDateType (Some UDAT_DATE_FIELD) = Inr ''day''"
| "IcuDateFieldIdToDateType (Some UDAT_HOUR_OF_DAY1_FIELD) = Inr ''hour''"
| "IcuDateFieldIdToDateType (Some UDAT_HOUR_OF_DAY0_FIELD) = Inr ''hour''"
| "IcuDateFieldIdToDateType (Some UDAT_HOUR1_FIELD) = Inr ''hour''"
| "IcuDateFieldIdToDateType (Some UDAT_HOUR0_FIELD) = Inr ''hour''"
| "IcuDateFieldIdToDateType (Some UDAT_MINUTE_FIELD) = Inr ''minute''"
| "IcuDateFieldIdToDateType (Some UDAT_SECOND_FIELD) = Inr ''second''"
| "IcuDateFieldIdToDateType (Some UDAT_DAY_OF_WEEK_FIELD) = Inr ''weekday''"
| "IcuDateFieldIdToDateType (Some UDAT_DOW_LOCAL_FIELD) = Inr ''weekday''"
| "IcuDateFieldIdToDateType (Some UDAT_STANDALONE_DAY_FIELD) = Inr ''weekday''"
| "IcuDateFieldIdToDateType (Some UDAT_AM_PM_FIELD) = Inr ''dayPeriod''"
| "IcuDateFieldIdToDateType (Some UDAT_TIMEZONE_FIELD) = Inr ''timeZoneName''"
| "IcuDateFieldIdToDateType (Some UDAT_TIMEZONE_RFC_FIELD) = Inr ''timeZoneName''"
| "IcuDateFieldIdToDateType (Some UDAT_TIMEZONE_GENERIC_FIELD) = Inr ''timeZoneName''"
| "IcuDateFieldIdToDateType (Some UDAT_TIMEZONE_SPECIAL_FIELD) = Inr ''timeZoneName''"
| "IcuDateFieldIdToDateType (Some UDAT_TIMEZONE_LOCALIZED_GMT_OFFSET_FIELD) = Inr ''timeZoneName''"
| "IcuDateFieldIdToDateType (Some UDAT_TIMEZONE_ISO_FIELD) = Inr ''timeZoneName''"
| "IcuDateFieldIdToDateType (Some UDAT_TIMEZONE_ISO_LOCAL_FIELD) = Inr ''timeZoneName''"
| "IcuDateFieldIdToDateType (Some UDAT_ERA_FIELD) = Inr ''era''"
| "IcuDateFieldIdToDateType (Some (UDAT_OTHER_FIELD n)) = Inl Unreachable"

record FormattedPart =
  part_type :: string
  part_value :: UnicodeString

text \<open>
  \<^verbatim>\<open>Intl::ToString(isolate, formatted, begin, end)\<close>: the code units of \<open>formatted\<close> from
  \<open>begin\<close> up to \<open>end\<close>.
\<close>

definition ToString_range :: "UnicodeString \<Rightarrow> int \<Rightarrow> int \<Rightarrow> UnicodeString" where
  "ToString_range formatted begin_pos end_pos =
     take (nat (end_pos - begin_pos)) (drop (nat begin_pos) formatted)"

text \<open>
  The loop of \<^verbatim>\<open>FormatToParts\<close> over the field positions. \<^verbatim>\<open>AddElement\<close> stores the
  element at \<^verbatim>\<open>index\<close>, which counts the elements stored so far, so it appends.
\<close>

fun FormatToParts_loop ::
  "UnicodeString \<Rightarrow> int \<Rightarrow> FormattedPart list \<Rightarrow> FieldPosition list \<Rightarrow>
     error + int \<times> FormattedPart list" where
  "FormatToParts_loop formatted previous_end_pos result [] = Inr (previous_end_pos, result)"
| "FormatToParts_loop formatted previous_end_pos result (fp # fps) =
     (let begin_pos = fp_beginIndex fp;
          end_pos = fp_endIndex fp;
          result1 =
            (if previous_end_pos < begin_pos
             then result @ [\<lparr>part_type = ''literal'',
                              part_value = ToString_range formatted previous_end_pos begin_pos\<rparr>]
             else result)
      in case IcuDateFieldIdToDateType (Some (fp_field fp)) of
           Inl e \<Rightarrow> Inl e
         | Inr field_type \<Rightarrow>
             FormatToParts_loop formatted end_pos
               (result1 @ [\<lparr>part_type = field_type,
                              part_value = ToString_range formatted begin_pos end_pos\<rparr>])
               fps)"

definition FormatToParts ::
  "ICU \<Rightarrow> JSDateTimeFormat \<Rightarrow> double \<Rightarrow> error + FormattedPart list" where
  "FormatToParts icu date_time_format date_value =
     (case icu_format_positions icu (icu_simple_date_format date_time_format) date_value of
        (failure, formatted, fps) \<Rightarrow>
          if failure then Inl (TypeError kIcuError)
          else
            (let len = int (length formatted) in
             if len = 0 then Inr []
             else
               (case FormatToParts_loop formatted 0 [] fps of
                  Inl e \<Rightarrow> Inl e
                | Inr (previous_end_pos, result) \<Rightarrow>
                    if previous_end_pos < len
                    then Inr (result @ [\<lparr>part_type = ''literal'',
                                          part_value = ToString_range formatted previous_end_pos len\<rparr>])
                    else Inr result)))"

text \<open>
  Modelled from the spec: the caller of \<^verbatim>\<open>FormatToParts\<close>, the function behind the
  operation \<^verbatim>\<open>formatToParts\<close>, is not among the sources; \<^verbatim>\<open>FormatToParts\<close> takes the
  time value as a \<^verbatim>\<open>double\<close> from it. By the specification an invalid time value
  surfaces at the \<^verbatim>\<open>formatToParts\<close> call as it does at \<^verbatim>\<open>format\<close>: the time value is
  range-clipped, one that is then not a number is refused, and the parts are those of
  the clipped value.
\<close>

definition formatToParts ::
  "Intl \<Rightarrow> ICU \<Rightarrow> JSDateTimeFormat \<Rightarrow> double \<Rightarrow> error + FormattedPart list" where
  "formatToParts I icu date_time_format x =
     (let date_value = TimeClip I x in
      if isnan date_value then Inl (RangeError kInvalidTimeValue)
      else FormatToParts icu date_time_format date_value)"

text \<open>
  The field positions the engine is expected to give: each span begins where the one
  before it ended or later, does not end before it begins, and ends within the text.
\<close>

fun field_positions_ok :: "int \<Rightarrow> int \<Rightarrow> FieldPosition list \<Rightarrow> bool" where
  "field_positions_ok previous_end len [] = True"
| "field_positions_ok previous_end len (fp # fps) =
     (previous_end \<le> fp_beginIndex fp \<and> fp_beginIndex fp \<le> fp_endIndex fp \<and>
      fp_endIndex fp \<le> len \<and> field_positions_ok (fp_endIndex fp) len fps)"

text \<open>
  The parts in the specification's words: before each span a literal part for the gap,
  if there is one; the span's own part; after the last span a literal part for what is
  left of the text, if anything is.
\<close>

fun parts_of_spans :: "UnicodeString \<Rightarrow> int \<Rightarrow> (string \<times> int \<times> int) list \<Rightarrow> FormattedPart list" where
  "parts_of_spans formatted previous_end [] =
     (if previous_end < int (length formatted)
      then [\<lparr>part_type = ''literal'',
              part_value = ToString_range formatted previous_end (int (length formatted))\<rparr>]
      else [])"
| "parts_of_spans formatted previous_end ((ty, b, e) # spans) =
     (if previous_end < b
      then [\<lparr>part_type = ''literal'', part_value = ToString_range formatted previous_end b\<rparr>]
      else []) @
     \<lparr>part_type = ty, part_value = ToString_range formatted b e\<rparr> #
     parts_of_spans formatted e spans"

text \<open>The field ids of all positions are ones that \<^const>\<open>IcuDateFieldIdToDateType\<close> lists.\<close>

definition field_types_known :: "FieldPosition list \<Rightarrow> bool" where
  "field_types_known fps =
     list_all (\<lambda>fp. \<not> isl (IcuDateFieldIdToDateType (Some (fp_field fp)))) fps"

definition span_of :: "FieldPosition \<Rightarrow> string \<times> int \<times> int" where
  "span_of fp =
     (case IcuDateFieldIdToDateType (Some (fp_field fp)) of
        Inr ty \<Rightarrow> (ty, fp_beginIndex fp, fp_endIndex fp)
      | Inl e \<Rightarrow> ([], fp_beginIndex fp, fp_endIndex fp))"

section \<open>A small environment for concrete instances\<close>

text \<open>
  One possible behaviour of the collaborators, used where a statement is applied to
  concrete inputs. The option getters read data properties of the options view; the
  engine knows three time zones, takes the skeleton for the pattern (with the hour of
  the locale written \<open>h\<close>), and renders every date as the same text with three fields.
\<close>

definition sample_ToHourCycle :: "string \<Rightarrow> HourCycle" where
  "sample_ToHourCycle s =
     (if s = ''h11'' then kH11 else if s = ''h12'' then kH12
      else if s = ''h23'' then kH23 else if s = ''h24'' then kH24 else kUndefined)"

definition sample_GetStringOption ::
  "Heap \<Rightarrow> addr \<Rightarrow> string \<Rightarrow> string list \<Rightarrow> string option Maybe" where
  "sample_GetStringOption h options name allowed =
     (case GetPropertyOrElement h options name of
        Inl e \<Rightarrow> Nothing
      | Inr Undefined \<Rightarrow> Just None
      | Inr (String s) \<Rightarrow> if allowed = [] \<or> s \<in> set allowed then Just (Some s) else Nothing
      | Inr v \<Rightarrow> Nothing)"

definition sample_GetBoolOption :: "Heap \<Rightarrow> addr \<Rightarrow> string \<Rightarrow> bool option Maybe" where
  "sample_GetBoolOption h options name =
     (case GetPropertyOrElement h options name of
        Inl e \<Rightarrow> Nothing
      | Inr Undefined \<Rightarrow> Just None
      | Inr (Boolean b) \<Rightarrow> Just (Some b)
      | Inr Null \<Rightarrow> Just (Some False)
      | Inr (String s) \<Rightarrow> Just (Some (s \<noteq> []))
      | Inr (Object a) \<Rightarrow> Just (Some True))"

definition sample_GetHourCycle :: "Heap \<Rightarrow> addr \<Rightarrow> HourCycle Maybe" where
  "sample_GetHourCycle h options =
     (case sample_GetStringOption h options ''hourCycle'' [''h11'', ''h12'', ''h23'', ''h24''] of
        Nothing \<Rightarrow> Nothing
      | Just None \<Rightarrow> Just kUndefined
      | Just (Some s) \<Rightarrow> Just (sample_ToHourCycle s))"

definition sample_ResolveLocale :: "string list \<Rightarrow> ResolvedLocale" where
  "sample_ResolveLocale requested_locales =
     (if requested_locales = [''en-u-hc-h23'']
      then \<lparr>r_icu_locale = \<lparr>base_name = ''en'', locale_keywords = [(''hc'', ''h23'')]\<rparr>,
            r_extensions = [(''hc'', ''h23'')]\<rparr>
      else \<lparr>r_icu_locale = \<lparr>base_name = ''en'', locale_keywords = []\<rparr>, r_extensions = []\<rparr>)"

definition sample_ToLanguageTag :: "Locale \<Rightarrow> string Maybe" where
  "sample_ToLanguageTag l =
     Just (base_name l @
           (if locale_keywords l = [] then []
            else ''-u'' @ concat (map (\<lambda>(k, v). ''-'' @ k @ ''-'' @ v) (locale_keywords l))))"

definition sample_Intl :: Intl where
  "sample_Intl =
     \<lparr>CanonicalizeLocaleList =
        (\<lambda>h v. case v of Undefined \<Rightarrow> Just [] | String s \<Rightarrow> Just [s] | _ \<Rightarrow> Nothing),
      GetLocaleMatcher = (\<lambda>h options. Just kBestFit),
      GetBoolOption = sample_GetBoolOption,
      GetHourCycle = sample_GetHourCycle,
      GetStringOption = sample_GetStringOption,
      GetFormatMatcher = (\<lambda>h options. Just FormatMatcher_kBestFit),
      ResolveLocale = (\<lambda>available requested matcher keys. sample_ResolveLocale requested),
      ToHourCycle = sample_ToHourCycle,
      BuildLocaleSet = set,
      ToLanguageTag = sample_ToLanguageTag,
      GetNumberingSystem = (\<lambda>l. ''latn''),
      kMaxTimeInMs = 8640000000000000\<rparr>"

definition sample_calendar :: "string \<Rightarrow> Calendar" where
  "sample_calendar tz =
     \<lparr>calendar_type = ''gregorian'', time_zone = tz, is_gregorian = True,
      gregorian_change = None\<rparr>"

definition sample_text :: UnicodeString where
  "sample_text = ascii ''on 1/2/2024.''"

definition sample_positions :: "FieldPosition list" where
  "sample_positions =
     [\<lparr>fp_field = UDAT_MONTH_FIELD, fp_beginIndex = 3, fp_endIndex = 4\<rparr>,
      \<lparr>fp_field = UDAT_DATE_FIELD, fp_beginIndex = 5, fp_endIndex = 6\<rparr>,
      \<lparr>fp_field = UDAT_YEAR_FIELD, fp_beginIndex = 7, fp_endIndex = 11\<rparr>]"

definition sample_ICU :: ICU where
  "sample_ICU =
     \<lparr>icu_TimeZone_createDefault = ''America/Los_Angeles'',
      icu_TimeZone_createTimeZone =
        (\<lambda>name. if name \<in> set [''UTC'', ''Europe/Paris'', ''America/Los_Angeles'']
                 then name else ''Etc/Unknown''),
      icu_TimeZone_getCanonicalID = (\<lambda>name. if name = ''UTC'' then Some ''Etc/UTC'' else Some name),
      icu_Calendar_createInstance = (\<lambda>tz l. Some (sample_calendar tz)),
      icu_DateTimePatternGenerator_createInstance = (\<lambda>l. True),
      icu_getBestPattern =
        (\<lambda>l skeleton. map (\<lambda>c. if c = CHR ''j'' then CHR ''h'' else c) skeleton),
      icu_new_SimpleDateFormat =
        (\<lambda>pattern l. Some \<lparr>sdf_pattern = pattern, sdf_locale = l,
                             sdf_calendar = sample_calendar ''America/Los_Angeles''\<rparr>),
      icu_format_positions = (\<lambda>date_format t. (False, sample_text, sample_positions)),
      icu_DateFormat_getAvailableLocales = [''en'']\<rparr>"

definition sample_format :: JSDateTimeFormat where
  "sample_format =
     \<lparr>icu_locale = \<lparr>base_name = ''en'', locale_keywords = []\<rparr>,
      icu_simple_date_format =
        \<lparr>sdf_pattern = ''M/d/y'', sdf_locale = \<lparr>base_name = ''en'', locale_keywords = []\<rparr>,
         sdf_calendar = sample_calendar ''America/Los_Angeles''\<rparr>,
      hour_cycle = kUndefined\<rparr>"

text \<open>An options object with \<open>hour12\<close> set and the \<open>hourCycle\<close> \<open>h23\<close>, and no hour.\<close>

definition sample_heap :: Heap where
  "sample_heap =
     [\<lparr>prototype = None,
       properties = [(''hour12'', DataProperty (Boolean True)),
                     (''hourCycle'', DataProperty (String ''h23''))]\<rparr>,
      \<lparr>prototype = None,
       properties = [(''hour12'', DataProperty (Boolean True)),
                     (''hourCycle'', DataProperty (String ''h23'')),
                     (''hour'', DataProperty (String ''numeric''))]\<rparr>]"


section \<open>Theorems: time zone identifiers\<close>

lemma char_eq_nat: "(c = d) = ((of_char c :: nat) = of_char d)"
  by simp

lemma digit_range: "IsInRange c (CHR ''0'') (CHR ''9'') \<longleftrightarrow> c \<in> set ''0123456789''"
  unfolding IsInRange_def by (simp add: char_eq_nat) arith

lemma digit04_range: "IsInRange c (CHR ''0'') (CHR ''4'') \<longleftrightarrow> c \<in> set ''01234''"
  unfolding IsInRange_def by (simp add: char_eq_nat) arith

text \<open>
  On an input whose first seven characters are given, \<^const>\<open>GetGMTTzID\<close> reads positions
  7 to 9 only, and agrees with the grammar on what follows the prefix.
\<close>

lemma GetGMTTzID_append:
  assumes "length pre = 7"
  shows "GetGMTTzID (pre @ off) = gmt_offset_grammar off"
proof (cases off)
  case Nil
  with assms show ?thesis by (simp add: GetGMTTzID_def gmt_offset_grammar_def)
next
  case c1: (Cons z r1)
  show ?thesis
  proof (cases r1)
    case Nil
    with c1 assms show ?thesis
      by (simp add: GetGMTTzID_def gmt_offset_grammar_def nth_append)
  next
    case c2: (Cons d r2)
    show ?thesis
    proof (cases r2)
      case Nil
      with c1 c2 assms show ?thesis
        by (simp add: GetGMTTzID_def gmt_offset_grammar_def nth_append digit_range)
    next
      case c3: (Cons e r3)
      show ?thesis
      proof (cases r3)
        case Nil
        with c1 c2 c3 assms show ?thesis
          by (simp add: GetGMTTzID_def gmt_offset_grammar_def nth_append digit04_range)
      next
        case (Cons f r4)
        with c1 c2 c3 assms show ?thesis
          by (simp add: GetGMTTzID_def gmt_offset_grammar_def)
      qed
    qed
  qed
qed

lemma etc_gmt_prefix_length: "has_etc_gmt_prefix input \<Longrightarrow> length (take 7 input) = 7"
proof -
  assume "has_etc_gmt_prefix input"
  then have "length (map LocaleIndependentAsciiToUpper (take 7 input)) = length ''ETC/GMT''"
    unfolding has_etc_gmt_prefix_def by (rule arg_cong)
  then show ?thesis by simp
qed

text \<open>
  Claim C3. \<^const>\<open>CanonicalizeTimeZoneID\<close> returns \<open>UTC\<close> for every input whose
  ASCII-uppercased form is \<open>UTC\<close>, \<open>GMT\<close>, \<open>ETC/UTC\<close> or \<open>ETC/GMT\<close>. For every other
  input whose first seven characters are \<open>ETC/GMT\<close> up to ASCII case, the result is
  given by the GMT-offset grammar on the original characters after the prefix: \<open>0\<close>
  alone gives \<open>Etc/GMT0\<close>, a sign and a digit give \<open>Etc/GMT\<close> with that sign and digit,
  a sign, \<open>1\<close> and a digit from 0 to 4 give \<open>Etc/GMT\<close> with the sign, \<open>1\<close> and the
  digit, and every other length or shape gives the empty string. So \<open>Etc/GMT+15\<close> is
  invalid and \<open>Etc/GMT+5\<close> canonicalizes to itself.
\<close>

theorem CanonicalizeTimeZoneID_utc_and_gmt_offset:
  "(is_utc_alias input \<longrightarrow> CanonicalizeTimeZoneID input = ''UTC'') \<and>
   (\<not> is_utc_alias input \<and> has_etc_gmt_prefix input \<longrightarrow>
      CanonicalizeTimeZoneID input = gmt_offset_grammar (drop 7 input)) \<and>
   CanonicalizeTimeZoneID ''Etc/GMT+15'' = [] \<and>
   CanonicalizeTimeZoneID ''Etc/GMT+5'' = ''Etc/GMT+5''"
proof (intro conjI impI)
  assume "is_utc_alias input"
  then show "CanonicalizeTimeZoneID input = ''UTC''"
    by (auto simp: is_utc_alias_def CanonicalizeTimeZoneID_def)
next
  assume a: "\<not> is_utc_alias input \<and> has_etc_gmt_prefix input"
  then have len: "length (take 7 input) = 7"
    using etc_gmt_prefix_length by blast
  from a have "CanonicalizeTimeZoneID input = GetGMTTzID input"
    by (simp add: is_utc_alias_def has_etc_gmt_prefix_def CanonicalizeTimeZoneID_def take_map)
  also have "\<dots> = GetGMTTzID (take 7 input @ drop 7 input)" by simp
  also have "\<dots> = gmt_offset_grammar (drop 7 input)"
    using len by (rule GetGMTTzID_append)
  finally show "CanonicalizeTimeZoneID input = gmt_offset_grammar (drop 7 input)" .
next
  show "CanonicalizeTimeZoneID ''Etc/GMT+15'' = []"
    by code_simp
next
  show "CanonicalizeTimeZoneID ''Etc/GMT+5'' = ''Etc/GMT+5''"
    by code_simp
qed

theorem CanonicalizeTimeZoneID_utc_and_gmt_offset_witness:
  "\<not> is_utc_alias ''etc/gmt-14'' \<and> has_etc_gmt_prefix ''etc/gmt-14'' \<and>
   CanonicalizeTimeZoneID ''etc/gmt-14'' = ''Etc/GMT-14'' \<and>
   is_utc_alias ''Etc/gmt'' \<and> CanonicalizeTimeZoneID ''Etc/gmt'' = ''UTC''"
proof -
  have a: "\<not> is_utc_alias ''etc/gmt-14''"
    by code_simp
  have b: "has_etc_gmt_prefix ''etc/gmt-14''"
    by code_simp
  have c: "is_utc_alias ''Etc/gmt''"
    by code_simp
  have d: "gmt_offset_grammar (drop 7 ''etc/gmt-14'') = ''Etc/GMT-14''"
    by code_simp
  from CanonicalizeTimeZoneID_utc_and_gmt_offset [of "''etc/gmt-14''"] a b d
  have e: "CanonicalizeTimeZoneID ''etc/gmt-14'' = ''Etc/GMT-14''"
    by simp
  from CanonicalizeTimeZoneID_utc_and_gmt_offset [of "''Etc/gmt''"] c
  have f: "CanonicalizeTimeZoneID ''Etc/gmt'' = ''UTC''"
    by blast
  from a b c e f show ?thesis by blast
qed

lemma of_char_upper:
  "(of_char (LocaleIndependentAsciiToUpper c) :: nat) =
     (if 97 \<le> (of_char c :: nat) \<and> (of_char c :: nat) \<le> 122 then of_char c - 32 else of_char c)"
proof (cases "97 \<le> (of_char c :: nat) \<and> (of_char c :: nat) \<le> 122")
  case True
  then have "(of_char c :: nat) - 32 < 256" by arith
  then have "((of_char c :: nat) - 32) mod 256 = of_char c - 32" by (rule mod_less)
  with True show ?thesis
    by (simp add: LocaleIndependentAsciiToUpper_def IsInRange_def)
next
  case False
  then show ?thesis
    by (auto simp add: LocaleIndependentAsciiToUpper_def IsInRange_def)
qed

lemma of_char_lower:
  "(of_char (LocaleIndependentAsciiToLower c) :: nat) =
     (if 65 \<le> (of_char c :: nat) \<and> (of_char c :: nat) \<le> 90 then of_char c + 32 else of_char c)"
proof (cases "65 \<le> (of_char c :: nat) \<and> (of_char c :: nat) \<le> 90")
  case True
  then have "(of_char c :: nat) + 32 < 256" by arith
  then have "((of_char c :: nat) + 32) mod 256 = of_char c + 32" by (rule mod_less)
  with True show ?thesis
    by (simp add: LocaleIndependentAsciiToLower_def IsInRange_def)
next
  case False
  then show ?thesis
    by (auto simp add: LocaleIndependentAsciiToLower_def IsInRange_def)
qed

lemma lower_upper: "LocaleIndependentAsciiToLower (LocaleIndependentAsciiToUpper c) = LocaleIndependentAsciiToLower c"
  by (simp add: char_eq_nat of_char_lower of_char_upper) arith

lemma upper_eq_iff_lower_eq:
  "LocaleIndependentAsciiToUpper c = CHR ''O'' \<longleftrightarrow> LocaleIndependentAsciiToLower c = CHR ''o''"
  "LocaleIndependentAsciiToUpper c = CHR ''E'' \<longleftrightarrow> LocaleIndependentAsciiToLower c = CHR ''e''"
  "LocaleIndependentAsciiToUpper c = CHR ''A'' \<longleftrightarrow> LocaleIndependentAsciiToLower c = CHR ''a''"
  by (simp_all add: char_eq_nat of_char_lower of_char_upper) arith+

lemma sep_not_alpha: "is_separator c \<Longrightarrow> \<not> IsAsciiAlpha c"
  by (auto simp: is_separator_def IsAsciiAlpha_def IsInRange_def)

lemma split_words_not_Nil: "split_words s \<noteq> []"
  by (induction s) (auto split: list.splits)

lemma split_words_sep: "is_separator c \<Longrightarrow> split_words (c # cs) = [] # split_words cs"
  by simp

lemma split_words_letter:
  "\<not> is_separator c \<Longrightarrow> split_words (c # cs) = (c # hd (split_words cs)) # tl (split_words cs)"
  using split_words_not_Nil [of cs] by (cases "split_words cs") simp_all

lemma title_word_snoc:
  "title_word (u @ [c]) =
     title_word u @ [if length u = 0 then LocaleIndependentAsciiToUpper c
                     else LocaleIndependentAsciiToLower c]"
  by (cases u) (simp_all add: title_word_def)

lemma length_title_word: "length (title_word u) = length u"
  by (cases u) (simp_all add: title_word_def)

lemma special_word_length: "is_special_word u \<Longrightarrow> length u = 2"
proof -
  assume "is_special_word u"
  then have "length (map LocaleIndependentAsciiToLower u) = 2"
    unfolding is_special_word_def by auto
  then show ?thesis by simp
qed

lemma special_pair:
  "is_special_word [x, y] \<longleftrightarrow>
     (let s = [LocaleIndependentAsciiToUpper x, LocaleIndependentAsciiToLower y]
      in s = ''Of'' \<or> s = ''Es'' \<or> s = ''Au'')"
  by (simp add: is_special_word_def upper_eq_iff_lower_eq)

text \<open>The special-case step of the loop, on a state whose current word is \<open>u\<close>.\<close>

lemma special_step:
  assumes "length u = 2"
  shows "(let pos = length (b @ title_word u) - 2;
              substr = take 2 (drop pos (b @ title_word u))
          in if substr = ''Of'' \<or> substr = ''Es'' \<or> substr = ''Au''
             then (b @ title_word u)[pos := LocaleIndependentAsciiToLower ((b @ title_word u) ! pos)]
             else b @ title_word u) = b @ canonical_word u"
proof -
  from assms obtain x y where u: "u = [x, y]"
    by (auto simp: numeral_eq_Suc length_Suc_conv)
  show ?thesis
    unfolding u using special_pair [of x y]
    by (simp add: title_word_def canonical_word_def Let_def list_update_append lower_upper)
qed

lemma loop_invalid:
  "\<not> valid_location rest \<Longrightarrow> ToTitleCaseTimezoneLocation_loop tc wl rest = []"
proof (induction rest arbitrary: tc wl)
  case Nil
  then show ?case by (simp add: valid_location_def)
next
  case (Cons c cs)
  show ?case
  proof (cases "IsAsciiAlpha c \<or> is_separator c")
    case True
    with Cons.prems have "\<not> valid_location cs" by (simp add: valid_location_def)
    then show ?thesis using Cons.IH by (simp add: Let_def)
  next
    case False
    then show ?thesis by (simp add: is_separator_def)
  qed
qed

lemma loop_valid:
  "valid_location rest \<Longrightarrow>
   ToTitleCaseTimezoneLocation_loop (b @ title_word u) (length u) rest =
     b @ join_words (canonical_words ((u @ hd (split_words rest)) # tl (split_words rest)))
           (filter is_separator rest)"
proof (induction rest arbitrary: b u)
  case Nil
  then show ?case by simp
next
  case (Cons c cs)
  from Cons.prems have v: "valid_location cs" and c: "IsAsciiAlpha c \<or> is_separator c"
    by (simp_all add: valid_location_def)
  show ?case
  proof (cases "is_separator c")
    case True
    then have na: "\<not> IsAsciiAlpha c" by (rule sep_not_alpha)
    have step: "(if length u = 2 then
              (let pos = length (b @ title_word u) - 2;
                   substr = take 2 (drop pos (b @ title_word u))
               in if substr = ''Of'' \<or> substr = ''Es'' \<or> substr = ''Au''
                  then (b @ title_word u)[pos := LocaleIndependentAsciiToLower ((b @ title_word u) ! pos)]
                  else b @ title_word u)
            else b @ title_word u) = b @ canonical_word u"
    proof (cases "length u = 2")
      case True
      show ?thesis by (subst if_P [OF True]) (rule special_step [OF True])
    next
      case False
      then have "\<not> is_special_word u" using special_word_length by blast
      with False show ?thesis by (simp add: canonical_word_def)
    qed
    have "ToTitleCaseTimezoneLocation_loop (b @ title_word u) (length u) (c # cs) =
          ToTitleCaseTimezoneLocation_loop
            ((if length u = 2 then
              (let pos = length (b @ title_word u) - 2;
                   substr = take 2 (drop pos (b @ title_word u))
               in if substr = ''Of'' \<or> substr = ''Es'' \<or> substr = ''Au''
                  then (b @ title_word u)[pos := LocaleIndependentAsciiToLower ((b @ title_word u) ! pos)]
                  else b @ title_word u)
            else b @ title_word u) @ [c]) 0 cs"
      using True na by (simp add: is_separator_def Let_def)
    also have "\<dots> = ToTitleCaseTimezoneLocation_loop ((b @ canonical_word u) @ [c]) 0 cs"
      by (simp only: step)
    also have "\<dots> = ToTitleCaseTimezoneLocation_loop
            ((b @ canonical_word u @ [c]) @ title_word []) (length ([]::string)) cs"
      by (simp add: title_word_def)
    also have "\<dots> = (b @ canonical_word u @ [c]) @
          join_words (canonical_words (([] @ hd (split_words cs)) # tl (split_words cs)))
            (filter is_separator cs)"
      using v by (rule Cons.IH)
    also have "\<dots> = b @ join_words (canonical_words ((u @ hd (split_words (c # cs))) # tl (split_words (c # cs))))
           (filter is_separator (c # cs))"
      using True split_words_not_Nil [of cs]
      by (cases "split_words cs") simp_all
    finally show ?thesis .
  next
    case False
    with c have a: "IsAsciiAlpha c" by simp
    have "ToTitleCaseTimezoneLocation_loop (b @ title_word u) (length u) (c # cs) =
          ToTitleCaseTimezoneLocation_loop (b @ title_word (u @ [c])) (length (u @ [c])) cs"
      using a by (simp add: title_word_snoc)
    also have "\<dots> = b @ join_words (canonical_words (((u @ [c]) @ hd (split_words cs)) # tl (split_words cs)))
            (filter is_separator cs)"
      using v by (rule Cons.IH)
    also have "\<dots> = b @ join_words (canonical_words ((u @ hd (split_words (c # cs))) # tl (split_words (c # cs))))
           (filter is_separator (c # cs))"
      using False by (simp add: split_words_letter del: split_words.simps)
    finally show ?thesis .
  qed
qed

lemma ToTitleCaseTimezoneLocation_of_loop:
  "ToTitleCaseTimezoneLocation input = titlecase_location_of_loop input"
proof (cases "valid_location input")
  case True
  have "ToTitleCaseTimezoneLocation_loop ([] @ title_word []) (length ([]::string)) input =
        [] @ join_words (canonical_words (([] @ hd (split_words input)) # tl (split_words input)))
           (filter is_separator input)"
    using True by (rule loop_valid)
  then show ?thesis
    using True split_words_not_Nil [of input]
    by (simp add: ToTitleCaseTimezoneLocation_def titlecase_location_of_loop_def title_word_def)
next
  case False
  then show ?thesis
    by (simp add: ToTitleCaseTimezoneLocation_def titlecase_location_of_loop_def loop_invalid)
qed

lemma canonical_words_claimed:
  "ws \<noteq> [] \<Longrightarrow> \<not> is_special_word (last ws) \<Longrightarrow> canonical_words ws = map canonical_word ws"
proof (induction ws rule: canonical_words.induct)
  case 1
  then show ?case by simp
next
  case (2 w)
  then show ?case by (simp add: canonical_word_def)
next
  case (3 w v ws)
  then show ?case by simp
qed

text \<open>
  Where the input falls under neither the UTC rule nor the \<open>ETC/GMT\<close> rule and does not
  end with a special word, \<^const>\<open>CanonicalizeTimeZoneID\<close> gives what the titlecase-location
  grammar of the specification gives; in particular the empty string for an input with
  a character that is neither an ASCII letter nor a separator.
\<close>

lemma CanonicalizeTimeZoneID_titlecase_unless_trailing_special:
  assumes "\<not> is_utc_alias input" "\<not> has_etc_gmt_prefix input"
    and "\<not> is_special_word (last (split_words input))"
  shows "CanonicalizeTimeZoneID input = titlecase_location_claimed input"
proof -
  have "CanonicalizeTimeZoneID input = titlecase_location_of_loop input"
    using assms(1,2)
    by (simp add: CanonicalizeTimeZoneID_def is_utc_alias_def has_etc_gmt_prefix_def take_map
        ToTitleCaseTimezoneLocation_of_loop)
  moreover have "canonical_words (split_words input) = map canonical_word (split_words input)"
    using split_words_not_Nil [of input] assms(3) by (rule canonical_words_claimed)
  ultimately show ?thesis
    by (simp add: titlecase_location_of_loop_def titlecase_location_claimed_def)
qed

text \<open>
  Claim C4. The claim has every input that falls under neither the UTC rule nor the
  \<open>ETC/GMT\<close> rule follow the titlecase-location grammar, in which a two-letter word that
  is \<open>of\<close>, \<open>es\<close> or \<open>au\<close> in any case is lowercased as a whole; the comment of
  \<^verbatim>\<open>ToTitleCaseTimezoneLocation\<close> says the same. The function looks for such a word
  only where it meets a separator, and not at the end of the input. So for the input
  \<open>america/of\<close>, which falls under neither rule, the grammar gives \<open>America/of\<close> and
  \<^const>\<open>CanonicalizeTimeZoneID\<close> returns \<open>America/Of\<close>; and for \<open>port-Au-prince/ES\<close> the
  grammar gives \<open>Port-au-Prince/es\<close> and the function returns \<open>Port-au-Prince/Es\<close>, the
  same word \<open>au\<close> being lowercased where a separator follows it.
\<close>

theorem CanonicalizeTimeZoneID_trailing_special_word:
  "\<not> is_utc_alias ''america/of'' \<and> \<not> has_etc_gmt_prefix ''america/of'' \<and>
   titlecase_location_claimed ''america/of'' = ''America/of'' \<and>
   CanonicalizeTimeZoneID ''america/of'' = ''America/Of'' \<and>
   \<not> is_utc_alias ''port-Au-prince/ES'' \<and> \<not> has_etc_gmt_prefix ''port-Au-prince/ES'' \<and>
   titlecase_location_claimed ''port-Au-prince/ES'' = ''Port-au-Prince/es'' \<and>
   CanonicalizeTimeZoneID ''port-Au-prince/ES'' = ''Port-au-Prince/Es''"
  by code_simp

section \<open>Theorems: option defaults\<close>

lemma NeedsDefault_loop_value:
  "NeedsDefault_loop h options b props = Inr nd \<Longrightarrow>
     nd = (b \<and> list_all (option_absent h options) props)"
proof (induction props arbitrary: b)
  case Nil
  then show ?case by simp
next
  case (Cons p ps)
  from Cons.prems obtain u where
    u: "IsPropertyUndefined h options p = Inr u" and
    r: "NeedsDefault_loop h options (if \<not> u then False else b) ps = Inr nd"
    by (auto split: sum.splits)
  from u have "u = option_absent h options p"
    by (auto simp: IsPropertyUndefined_def option_absent_def split: sum.splits)
  with Cons.IH [OF r] show ?case by auto
qed

lemma NeedsDefault_value:
  "NeedsDefault h options props = Inr nd \<Longrightarrow> nd = list_all (option_absent h options) props"
  unfolding NeedsDefault_def using NeedsDefault_loop_value [of h options True props nd] by simp

lemma needs_default_value:
  assumes "ToDateTimeOptions_needs_default h options required = Inr nd"
  shows "nd =
     ((required = Required_kDate \<or> required = Required_kAny \<longrightarrow>
         list_all (option_absent h options) [''weekday'', ''year'', ''month'', ''day'']) \<and>
      (required = Required_kTime \<or> required = Required_kAny \<longrightarrow>
         list_all (option_absent h options) [''hour'', ''minute'', ''second'']))"
proof (cases required)
  case Required_kDate
  with assms have "NeedsDefault h options [''weekday'', ''year'', ''month'', ''day''] = Inr nd"
    by (simp add: ToDateTimeOptions_needs_default_def split: sum.splits)
  from NeedsDefault_value [OF this] Required_kDate show ?thesis by simp
next
  case Required_kTime
  with assms have "NeedsDefault h options [''hour'', ''minute'', ''second''] = Inr nd"
    by (simp add: ToDateTimeOptions_needs_default_def split: sum.splits)
  from NeedsDefault_value [OF this] Required_kTime show ?thesis by simp
next
  case Required_kAny
  with assms obtain d t where
    d: "NeedsDefault h options [''weekday'', ''year'', ''month'', ''day''] = Inr d" and
    t: "NeedsDefault h options [''hour'', ''minute'', ''second''] = Inr t" and
    nd: "nd = (d \<and> t)"
    by (auto simp add: ToDateTimeOptions_needs_default_def split: sum.splits)
  from NeedsDefault_value [OF d] NeedsDefault_value [OF t] nd Required_kAny
  show ?thesis by simp
qed

lemma CreateDataProperty_fresh:
  "CreateDataProperty (h @ [obj]) (length h) name v =
     h @ [obj\<lparr>properties := AList.update name (DataProperty v) (properties obj)\<rparr>]"
  by (simp add: CreateDataProperty_def)

lemma create_defaults_fresh:
  "ToDateTimeOptions_create_defaults (h @ [\<lparr>prototype = p, properties = []\<rparr>]) (length h) defaults =
     h @ [\<lparr>prototype = p, properties =
            (if defaults = Defaults_kAll \<or> defaults = Defaults_kDate
             then [(''year'', DataProperty (String ''numeric'')),
                   (''month'', DataProperty (String ''numeric'')),
                   (''day'', DataProperty (String ''numeric''))] else []) @
            (if defaults = Defaults_kAll \<or> defaults = Defaults_kTime
             then [(''hour'', DataProperty (String ''numeric'')),
                   (''minute'', DataProperty (String ''numeric'')),
                   (''second'', DataProperty (String ''numeric''))] else [])\<rparr>]"
  by (cases defaults) (simp_all add: ToDateTimeOptions_create_defaults_def CreateDataProperty_fresh)

lemma Get_own_fresh:
  "GetPropertyOrElement (h @ [obj]) (length h) name =
     (case map_of (properties obj) name of
        Some (DataProperty v) \<Rightarrow> Inr v
      | Some ThrowingGetter \<Rightarrow> Inl PendingException
      | None \<Rightarrow> (case prototype obj of None \<Rightarrow> Inr Undefined
                 | Some p \<Rightarrow> GetProperty_chain (length h) (h @ [obj]) p name))"
  by (simp add: GetPropertyOrElement_def split: option.splits Property.splits)

lemma ToDateTimeOptions_undefined:
  "ToDateTimeOptions h Undefined Required_kAny Defaults_kDate =
     Inr (h @ [\<lparr>prototype = None, properties =
                  [(''year'', DataProperty (String ''numeric'')),
                   (''month'', DataProperty (String ''numeric'')),
                   (''day'', DataProperty (String ''numeric''))]\<rparr>], length h)"
proof -
  have "ToDateTimeOptions_needs_default (h @ [\<lparr>prototype = None, properties = []\<rparr>]) (length h)
          Required_kAny = Inr True"
    by (simp add: ToDateTimeOptions_needs_default_def NeedsDefault_def IsPropertyUndefined_def
        Get_own_fresh)
  then show ?thesis
    by (simp add: ToDateTimeOptions_def NewJSObjectWithNullProto_def create_defaults_fresh)
qed

lemma ToDateTimeOptions_result:
  assumes "input = Undefined \<or> input = Object a"
    and "ToDateTimeOptions h input required defaults = Inr (h', options')"
  shows "\<exists>obj nd. h' = h @ [obj] \<and> options' = length h \<and>
           prototype obj = (if input = Undefined then None else Some a) \<and>
           ToDateTimeOptions_needs_default (h @ [obj\<lparr>properties := []\<rparr>]) (length h) required = Inr nd \<and>
           (nd \<and> (defaults = Defaults_kDate \<or> defaults = Defaults_kAll) \<longrightarrow>
              own_property obj ''year'' = Some (DataProperty (String ''numeric'')) \<and>
              own_property obj ''month'' = Some (DataProperty (String ''numeric'')) \<and>
              own_property obj ''day'' = Some (DataProperty (String ''numeric''))) \<and>
           (\<not> nd \<longrightarrow> properties obj = [])"
proof -
  define p where "p = (if input = Undefined then None else Some a)"
  define h2 where "h2 = h @ [\<lparr>prototype = p, properties = []\<rparr>]"
  from assms(1) have fresh:
    "(if input = Undefined then Inr (NewJSObjectWithNullProto h)
      else (case ToObject h input of Inl e \<Rightarrow> Inl e
            | Inr (h1, options_obj) \<Rightarrow> Inr (ObjectCreate h1 options_obj))) =
     (Inr (h2, length h) :: error + Heap \<times> addr)"
    by (auto simp: NewJSObjectWithNullProto_def ObjectCreate_def h2_def p_def)
  from assms(2) obtain nd where
    nd: "ToDateTimeOptions_needs_default h2 (length h) required = Inr nd" and
    res: "(h', options') =
       (if nd then (ToDateTimeOptions_create_defaults h2 (length h) defaults, length h)
        else (h2, length h))"
    unfolding ToDateTimeOptions_def fresh by (auto split: sum.splits if_splits)
  show ?thesis
  proof (cases nd)
    case True
    with res have "h' = ToDateTimeOptions_create_defaults h2 (length h) defaults"
      and o: "options' = length h" by simp_all
    then obtain ps where h': "h' = h @ [\<lparr>prototype = p, properties = ps\<rparr>]" and
      ps: "ps = (if defaults = Defaults_kAll \<or> defaults = Defaults_kDate
             then [(''year'', DataProperty (String ''numeric'')),
                   (''month'', DataProperty (String ''numeric'')),
                   (''day'', DataProperty (String ''numeric''))] else []) @
            (if defaults = Defaults_kAll \<or> defaults = Defaults_kTime
             then [(''hour'', DataProperty (String ''numeric'')),
                   (''minute'', DataProperty (String ''numeric'')),
                   (''second'', DataProperty (String ''numeric''))] else [])"
      unfolding h2_def create_defaults_fresh by blast
    have "ToDateTimeOptions_needs_default
            (h @ [\<lparr>prototype = p, properties = ps\<rparr>\<lparr>properties := []\<rparr>]) (length h) required = Inr nd"
      using nd by (simp add: h2_def)
    moreover have "defaults = Defaults_kDate \<or> defaults = Defaults_kAll \<longrightarrow>
              own_property \<lparr>prototype = p, properties = ps\<rparr> ''year'' = Some (DataProperty (String ''numeric'')) \<and>
              own_property \<lparr>prototype = p, properties = ps\<rparr> ''month'' = Some (DataProperty (String ''numeric'')) \<and>
              own_property \<lparr>prototype = p, properties = ps\<rparr> ''day'' = Some (DataProperty (String ''numeric''))"
      by (auto simp: ps own_property_def)
    ultimately show ?thesis
      using h' o True p_def by (intro exI [of _ "\<lparr>prototype = p, properties = ps\<rparr>"] exI [of _ nd]) simp
  next
    case False
    with res have "h' = h2" and o: "options' = length h" by simp_all
    then show ?thesis
      using nd False p_def
      by (intro exI [of _ "\<lparr>prototype = p, properties = []\<rparr>"] exI [of _ nd]) (simp add: h2_def)
  qed
qed

text \<open>
  Claim C5. \<^verbatim>\<open>ToDateTimeOptions\<close> computes \<^verbatim>\<open>needs_default\<close> as: all of weekday, year,
  month and day are absent on the options view when \<^verbatim>\<open>required\<close> is date or any, and
  all of hour, minute and second are absent when \<^verbatim>\<open>required\<close> is time or any. The view
  it returns is a fresh object, added to the heap after the objects that were there,
  which are left as they were; its prototype is the caller's options object (none
  when the options are \<^verbatim>\<open>undefined\<close>). When \<^verbatim>\<open>needs_default\<close> is true and \<^verbatim>\<open>defaults\<close> is
  date or all, year, month and day are own properties of the fresh object with the
  value \<open>numeric\<close>; when it is false the fresh object has no own property. With
  \<^verbatim>\<open>undefined\<close> options, required any and defaults date, the view has year, month and
  day \<open>numeric\<close> and no weekday, hour, minute or second.
\<close>

theorem ToDateTimeOptions_defaults:
  "(ToDateTimeOptions_needs_default h options required = Inr nd \<longrightarrow>
      nd = ((required = Required_kDate \<or> required = Required_kAny \<longrightarrow>
               list_all (option_absent h options) [''weekday'', ''year'', ''month'', ''day'']) \<and>
            (required = Required_kTime \<or> required = Required_kAny \<longrightarrow>
               list_all (option_absent h options) [''hour'', ''minute'', ''second'']))) \<and>
   ((input = Undefined \<or> input = Object a) \<and>
    ToDateTimeOptions h input required defaults = Inr (h', options') \<longrightarrow>
      (\<exists>obj nd'. h' = h @ [obj] \<and> options' = length h \<and>
         prototype obj = (if input = Undefined then None else Some a) \<and>
         ToDateTimeOptions_needs_default (h @ [obj\<lparr>properties := []\<rparr>]) (length h) required =
           Inr nd' \<and>
         (nd' \<and> (defaults = Defaults_kDate \<or> defaults = Defaults_kAll) \<longrightarrow>
            own_property obj ''year'' = Some (DataProperty (String ''numeric'')) \<and>
            own_property obj ''month'' = Some (DataProperty (String ''numeric'')) \<and>
            own_property obj ''day'' = Some (DataProperty (String ''numeric''))) \<and>
         (\<not> nd' \<longrightarrow> properties obj = []))) \<and>
   (\<exists>obj. ToDateTimeOptions h Undefined Required_kAny Defaults_kDate = Inr (h @ [obj], length h) \<and>
      prototype obj = None \<and>
      GetPropertyOrElement (h @ [obj]) (length h) ''year'' = Inr (String ''numeric'') \<and>
      GetPropertyOrElement (h @ [obj]) (length h) ''month'' = Inr (String ''numeric'') \<and>
      GetPropertyOrElement (h @ [obj]) (length h) ''day'' = Inr (String ''numeric'') \<and>
      option_absent (h @ [obj]) (length h) ''weekday'' \<and>
      option_absent (h @ [obj]) (length h) ''hour'' \<and>
      option_absent (h @ [obj]) (length h) ''minute'' \<and>
      option_absent (h @ [obj]) (length h) ''second'')"
proof (intro conjI impI)
  assume "ToDateTimeOptions_needs_default h options required = Inr nd"
  then show "nd = ((required = Required_kDate \<or> required = Required_kAny \<longrightarrow>
               list_all (option_absent h options) [''weekday'', ''year'', ''month'', ''day'']) \<and>
            (required = Required_kTime \<or> required = Required_kAny \<longrightarrow>
               list_all (option_absent h options) [''hour'', ''minute'', ''second'']))"
    by (rule needs_default_value)
next
  assume "(input = Undefined \<or> input = Object a) \<and>
    ToDateTimeOptions h input required defaults = Inr (h', options')"
  then show "\<exists>obj nd'. h' = h @ [obj] \<and> options' = length h \<and>
         prototype obj = (if input = Undefined then None else Some a) \<and>
         ToDateTimeOptions_needs_default (h @ [obj\<lparr>properties := []\<rparr>]) (length h) required =
           Inr nd' \<and>
         (nd' \<and> (defaults = Defaults_kDate \<or> defaults = Defaults_kAll) \<longrightarrow>
            own_property obj ''year'' = Some (DataProperty (String ''numeric'')) \<and>
            own_property obj ''month'' = Some (DataProperty (String ''numeric'')) \<and>
            own_property obj ''day'' = Some (DataProperty (String ''numeric''))) \<and>
         (\<not> nd' \<longrightarrow> properties obj = [])"
    using ToDateTimeOptions_result [of input a h required defaults h' options'] by blast
next
  show "\<exists>obj. ToDateTimeOptions h Undefined Required_kAny Defaults_kDate = Inr (h @ [obj], length h) \<and>
      prototype obj = None \<and>
      GetPropertyOrElement (h @ [obj]) (length h) ''year'' = Inr (String ''numeric'') \<and>
      GetPropertyOrElement (h @ [obj]) (length h) ''month'' = Inr (String ''numeric'') \<and>
      GetPropertyOrElement (h @ [obj]) (length h) ''day'' = Inr (String ''numeric'') \<and>
      option_absent (h @ [obj]) (length h) ''weekday'' \<and>
      option_absent (h @ [obj]) (length h) ''hour'' \<and>
      option_absent (h @ [obj]) (length h) ''minute'' \<and>
      option_absent (h @ [obj]) (length h) ''second''"
    by (rule exI [of _ "\<lparr>prototype = None, properties =
                  [(''year'', DataProperty (String ''numeric'')),
                   (''month'', DataProperty (String ''numeric'')),
                   (''day'', DataProperty (String ''numeric''))]\<rparr>"])
       (simp add: ToDateTimeOptions_undefined Get_own_fresh option_absent_def)
qed

theorem ToDateTimeOptions_defaults_witness:
  "ToDateTimeOptions_needs_default
     [\<lparr>prototype = None, properties = [(''hour'', DataProperty (String ''2-digit''))]\<rparr>,
      \<lparr>prototype = Some 0, properties = []\<rparr>] 1 Required_kAny = Inr False \<and>
   \<not> list_all (option_absent
     [\<lparr>prototype = None, properties = [(''hour'', DataProperty (String ''2-digit''))]\<rparr>,
      \<lparr>prototype = Some 0, properties = []\<rparr>] 1) [''hour'', ''minute'', ''second''] \<and>
   ToDateTimeOptions
     [\<lparr>prototype = None, properties = [(''hour'', DataProperty (String ''2-digit''))]\<rparr>]
     (Object 0) Required_kTime Defaults_kAll =
   Inr ([\<lparr>prototype = None, properties = [(''hour'', DataProperty (String ''2-digit''))]\<rparr>,
         \<lparr>prototype = Some 0, properties = []\<rparr>], 1) \<and>
   ToDateTimeOptions
     [\<lparr>prototype = None, properties = [(''hour'', DataProperty (String ''2-digit''))]\<rparr>]
     (Object 0) Required_kDate Defaults_kDate =
   Inr ([\<lparr>prototype = None, properties = [(''hour'', DataProperty (String ''2-digit''))]\<rparr>,
         \<lparr>prototype = Some 0, properties =
            [(''year'', DataProperty (String ''numeric'')),
             (''month'', DataProperty (String ''numeric'')),
             (''day'', DataProperty (String ''numeric''))]\<rparr>], 1)"
proof -
  let ?o = "\<lparr>prototype = None, properties = [(''hour'', DataProperty (String ''2-digit''))]\<rparr>"
  let ?v = "\<lparr>prototype = Some (0::nat), properties = ([] :: (string \<times> Property) list)\<rparr>"
  have nd: "ToDateTimeOptions_needs_default [?o, ?v] 1 Required_kAny = Inr False"
    by code_simp
  have t: "ToDateTimeOptions [?o] (Object 0) Required_kTime Defaults_kAll = Inr ([?o, ?v], 1)"
    by code_simp
  have d: "ToDateTimeOptions [?o] (Object 0) Required_kDate Defaults_kDate =
      Inr ([?o, \<lparr>prototype = Some 0, properties =
            [(''year'', DataProperty (String ''numeric'')),
             (''month'', DataProperty (String ''numeric'')),
             (''day'', DataProperty (String ''numeric''))]\<rparr>], 1)"
    by code_simp
  have da: "list_all (option_absent [?o, ?v] 1) [''weekday'', ''year'', ''month'', ''day'']"
    by code_simp
  have "\<not> list_all (option_absent [?o, ?v] 1) [''hour'', ''minute'', ''second'']"
    using ToDateTimeOptions_defaults [of "[?o, ?v]" 1 Required_kAny False, THEN conjunct1] nd da
    by blast
  with nd t d show ?thesis by blast
qed

section \<open>Theorems: formatting to parts\<close>

lemma ToString_range_glue:
  assumes "0 \<le> p" "p \<le> b" "b \<le> int (length formatted)"
  shows "ToString_range formatted p b @ drop (nat b) formatted = drop (nat p) formatted"
proof -
  have "nat b = nat (b - p) + nat p" using assms by simp
  then have "drop (nat b) formatted = drop (nat (b - p)) (drop (nat p) formatted)"
    by (simp only: drop_drop)
  then have "ToString_range formatted p b @ drop (nat b) formatted =
      take (nat (b - p)) (drop (nat p) formatted) @ drop (nat (b - p)) (drop (nat p) formatted)"
    by (simp only: ToString_range_def)
  also have "\<dots> = drop (nat p) formatted" by (rule append_take_drop_id)
  finally show ?thesis .
qed

lemma FormatToParts_loop_parts:
  "FormatToParts_loop formatted prev result fps = Inr (pe, res) \<Longrightarrow>
     (if pe < int (length formatted)
      then res @ [\<lparr>part_type = ''literal'',
                    part_value = ToString_range formatted pe (int (length formatted))\<rparr>]
      else res) = result @ parts_of_spans formatted prev (map span_of fps)"
proof (induction fps arbitrary: prev result)
  case Nil
  then show ?case by auto
next
  case (Cons fp fps)
  from Cons.prems obtain ty where
    ty: "IcuDateFieldIdToDateType (Some (fp_field fp)) = Inr ty" and
    rest: "FormatToParts_loop formatted (fp_endIndex fp)
        ((if prev < fp_beginIndex fp
          then result @ [\<lparr>part_type = ''literal'',
                 part_value = ToString_range formatted prev (fp_beginIndex fp)\<rparr>]
          else result) @
         [\<lparr>part_type = ty,
            part_value = ToString_range formatted (fp_beginIndex fp) (fp_endIndex fp)\<rparr>])
        fps = Inr (pe, res)"
    by (auto simp: Let_def split: sum.splits)
  from ty have sp: "span_of fp = (ty, fp_beginIndex fp, fp_endIndex fp)"
    by (simp add: span_of_def)
  from Cons.IH [OF rest] show ?case
    by (simp add: sp)
qed

lemma FormatToParts_loop_total:
  "field_types_known fps \<Longrightarrow> \<exists>pe res. FormatToParts_loop formatted prev result fps = Inr (pe, res)"
proof (induction fps arbitrary: prev result)
  case Nil
  then show ?case by simp
next
  case (Cons fp fps)
  from Cons.prems obtain ty where ty: "IcuDateFieldIdToDateType (Some (fp_field fp)) = Inr ty"
    by (cases "IcuDateFieldIdToDateType (Some (fp_field fp))") (auto simp: field_types_known_def)
  from Cons.prems have "field_types_known fps" by (simp add: field_types_known_def)
  from Cons.IH [OF this] ty show ?case by (simp add: Let_def)
qed

lemma parts_of_spans_tile:
  "field_positions_ok prev (int (length formatted)) fps \<Longrightarrow> 0 \<le> prev \<Longrightarrow>
   prev \<le> int (length formatted) \<Longrightarrow>
     concat (map part_value (parts_of_spans formatted prev (map span_of fps))) =
       drop (nat prev) formatted"
proof (induction fps arbitrary: prev)
  case Nil
  then show ?case by (simp add: ToString_range_def)
next
  case (Cons fp fps)
  let ?b = "fp_beginIndex fp" and ?e = "fp_endIndex fp"
  from Cons.prems have ord: "prev \<le> ?b" "?b \<le> ?e" "?e \<le> int (length formatted)"
    and ok: "field_positions_ok ?e (int (length formatted)) fps" by simp_all
  from ord Cons.prems have e0: "0 \<le> ?e" and b0: "0 \<le> ?b" by simp_all
  obtain ty where sp: "span_of fp = (ty, ?b, ?e)"
    by (cases "IcuDateFieldIdToDateType (Some (fp_field fp))") (simp_all add: span_of_def)
  have tail: "concat (map part_value (parts_of_spans formatted ?e (map span_of fps))) =
      drop (nat ?e) formatted"
    using Cons.IH [OF ok e0 ord(3)] .
  have mid: "ToString_range formatted ?b ?e @ drop (nat ?e) formatted = drop (nat ?b) formatted"
    using b0 ord by (intro ToString_range_glue) simp_all
  have gap: "ToString_range formatted prev ?b @ drop (nat ?b) formatted = drop (nat prev) formatted"
    using Cons.prems ord by (intro ToString_range_glue) simp_all
  show ?case
  proof (cases "prev < ?b")
    case True
    then show ?thesis using tail mid gap by (simp add: sp)
  next
    case False
    with ord have "prev = ?b" by simp
    then show ?thesis using tail mid by (simp add: sp)
  qed
qed

text \<open>
  Claim C1. Provided the field spans the engine gives are in order, do not overlap and
  lie within the formatted text, the parts that \<^const>\<open>FormatToParts\<close> returns are the
  literal part of every gap before a span, the part of every span and the literal part
  of what follows the last span; their texts, concatenated in order, are the formatted
  text of the engine for the time value, so the parts tile it without gap or overlap;
  and an empty formatted text gives no part. The parts are returned whenever the engine
  reports no failure and every field id is one the source maps to a part type. For
  every formatter and every time value for which the field spans are so, the parts
  that the operation \<^const>\<open>formatToParts\<close> returns concatenate to exactly the string
  that \<^const>\<open>FormatDateTime\<close> returns for the same formatter and time value.
\<close>

theorem FormatToParts_tiles_formatted:
  "(icu_format_positions icu (icu_simple_date_format date_time_format) date_value =
      (failure, formatted, fps) \<and>
    field_positions_ok 0 (int (length formatted)) fps \<longrightarrow>
      (FormatToParts icu date_time_format date_value = Inr parts \<longrightarrow>
         concat (map part_value parts) = formatted \<and>
         (formatted = [] \<longrightarrow> parts = []) \<and>
         (formatted \<noteq> [] \<longrightarrow> parts = parts_of_spans formatted 0 (map span_of fps))) \<and>
      (\<not> failure \<and> (field_types_known fps \<or> formatted = []) \<longrightarrow>
         (\<exists>ps. FormatToParts icu date_time_format date_value = Inr ps))) \<and>
   (field_positions_ok 0
      (int (length (icu_format icu (icu_simple_date_format date_time_format) (TimeClip I t))))
      (snd (snd (icu_format_positions icu (icu_simple_date_format date_time_format)
                   (TimeClip I t)))) \<and>
    formatToParts I icu date_time_format t = Inr returned \<longrightarrow>
      FormatDateTime I icu (icu_simple_date_format date_time_format) t =
        Inr (concat (map part_value returned)))"
proof -
  have returned: "concat (map part_value ps) = rendered \<and>
        (rendered = [] \<longrightarrow> ps = []) \<and>
        (rendered \<noteq> [] \<longrightarrow> ps = parts_of_spans rendered 0 (map span_of sps))"
    if eng: "icu_format_positions icu (icu_simple_date_format date_time_format) d =
        (fl, rendered, sps)"
      and ok: "field_positions_ok 0 (int (length rendered)) sps"
      and r: "FormatToParts icu date_time_format d = Inr ps"
    for d fl rendered sps ps
  proof (cases "rendered = []")
    case True
    with r eng show ?thesis by (simp add: FormatToParts_def split: if_splits)
  next
    case False
    have tile: "concat (map part_value (parts_of_spans rendered 0 (map span_of sps))) = rendered"
      using parts_of_spans_tile [OF ok] by simp
    from False r eng obtain pe res where
      loop: "FormatToParts_loop rendered 0 [] sps = Inr (pe, res)" and
      parts: "ps = (if pe < int (length rendered)
         then res @ [\<lparr>part_type = ''literal'',
                       part_value = ToString_range rendered pe (int (length rendered))\<rparr>]
         else res)"
      by (auto simp: FormatToParts_def Let_def split: sum.splits if_splits)
    from FormatToParts_loop_parts [OF loop] parts
    have "ps = parts_of_spans rendered 0 (map span_of sps)" by simp
    with tile False show ?thesis by simp
  qed
  have total: "\<exists>ps. FormatToParts icu date_time_format date_value = Inr ps"
    if eng: "icu_format_positions icu (icu_simple_date_format date_time_format) date_value =
        (failure, formatted, fps)"
      and nf: "\<not> failure" and k: "field_types_known fps \<or> formatted = []"
  proof (cases "formatted = []")
    case True
    with eng nf show ?thesis by (simp add: FormatToParts_def)
  next
    case False
    with k have "field_types_known fps" by simp
    from FormatToParts_loop_total [OF this, of formatted 0 "[]"] eng nf False
    show ?thesis by (auto simp: FormatToParts_def Let_def)
  qed
  have same: "FormatDateTime I icu (icu_simple_date_format date_time_format) t =
        Inr (concat (map part_value returned))"
    if ok: "field_positions_ok 0
        (int (length (icu_format icu (icu_simple_date_format date_time_format) (TimeClip I t))))
        (snd (snd (icu_format_positions icu (icu_simple_date_format date_time_format)
                     (TimeClip I t))))"
      and r: "formatToParts I icu date_time_format t = Inr returned"
  proof -
    obtain fl rendered sps where
      eng: "icu_format_positions icu (icu_simple_date_format date_time_format) (TimeClip I t) =
        (fl, rendered, sps)"
      by (cases "icu_format_positions icu (icu_simple_date_format date_time_format)
            (TimeClip I t)") auto
    from r have nn: "\<not> isnan (TimeClip I t)"
      and r': "FormatToParts icu date_time_format (TimeClip I t) = Inr returned"
      by (simp_all add: formatToParts_def Let_def split: if_splits)
    from ok eng have ok': "field_positions_ok 0 (int (length rendered)) sps"
      by (simp add: icu_format_def)
    from returned [OF eng ok' r'] have "concat (map part_value returned) = rendered" by simp
    with nn eng show ?thesis by (simp add: FormatDateTime_def Let_def icu_format_def)
  qed
  from returned [of date_value failure formatted fps parts] total same show ?thesis by blast
qed

theorem FormatToParts_tiles_formatted_witness:
  "icu_format_positions sample_ICU (icu_simple_date_format sample_format) (Finite 1) =
     (False, sample_text, sample_positions) \<and>
   field_positions_ok 0 (int (length sample_text)) sample_positions \<and>
   field_types_known sample_positions \<and>
   TimeClip sample_Intl (Finite (3 / 2)) = Finite 1 \<and>
   formatToParts sample_Intl sample_ICU sample_format (Finite (3 / 2)) = Inr
     [\<lparr>part_type = ''literal'', part_value = ascii ''on ''\<rparr>,
      \<lparr>part_type = ''month'', part_value = ascii ''1''\<rparr>,
      \<lparr>part_type = ''literal'', part_value = ascii ''/''\<rparr>,
      \<lparr>part_type = ''day'', part_value = ascii ''2''\<rparr>,
      \<lparr>part_type = ''literal'', part_value = ascii ''/''\<rparr>,
      \<lparr>part_type = ''year'', part_value = ascii ''2024''\<rparr>,
      \<lparr>part_type = ''literal'', part_value = ascii ''.''\<rparr>] \<and>
   concat [ascii ''on '', ascii ''1'', ascii ''/'', ascii ''2'', ascii ''/'', ascii ''2024'',
           ascii ''.''] = sample_text \<and>
   FormatDateTime sample_Intl sample_ICU (icu_simple_date_format sample_format) (Finite (3 / 2)) =
     Inr sample_text"
proof -
  let ?parts = "[\<lparr>part_type = ''literal'', part_value = ascii ''on ''\<rparr>,
      \<lparr>part_type = ''month'', part_value = ascii ''1''\<rparr>,
      \<lparr>part_type = ''literal'', part_value = ascii ''/''\<rparr>,
      \<lparr>part_type = ''day'', part_value = ascii ''2''\<rparr>,
      \<lparr>part_type = ''literal'', part_value = ascii ''/''\<rparr>,
      \<lparr>part_type = ''year'', part_value = ascii ''2024''\<rparr>,
      \<lparr>part_type = ''literal'', part_value = ascii ''.''\<rparr>]"
  have a: "icu_format_positions sample_ICU (icu_simple_date_format sample_format) (Finite 1) =
     (False, sample_text, sample_positions)"
    by (simp add: sample_ICU_def)
  have b: "field_positions_ok 0 (int (length sample_text)) sample_positions"
    by (simp add: sample_text_def sample_positions_def ascii_def)
  have c: "field_types_known sample_positions"
    by (simp add: field_types_known_def sample_positions_def)
  have tc: "TimeClip sample_Intl (Finite (3 / 2)) = Finite 1"
    by (simp add: TimeClip_def DoubleToInteger_def sample_Intl_def)
  have d: "FormatToParts sample_ICU sample_format (Finite 1) = Inr ?parts"
    by code_simp
  from d tc have e: "formatToParts sample_Intl sample_ICU sample_format (Finite (3 / 2)) =
      Inr ?parts"
    by (simp add: formatToParts_def isnan_def)
  from a b tc have f: "field_positions_ok 0
      (int (length (icu_format sample_ICU (icu_simple_date_format sample_format)
         (TimeClip sample_Intl (Finite (3 / 2))))))
      (snd (snd (icu_format_positions sample_ICU (icu_simple_date_format sample_format)
         (TimeClip sample_Intl (Finite (3 / 2))))))"
    by (simp add: icu_format_def)
  from FormatToParts_tiles_formatted
    [of sample_ICU sample_format "Finite 1" False sample_text sample_positions ?parts
       sample_Intl "Finite (3 / 2)" ?parts]
    a b d e f
  have "concat (map part_value ?parts) = sample_text \<and>
        FormatDateTime sample_Intl sample_ICU (icu_simple_date_format sample_format)
          (Finite (3 / 2)) = Inr (concat (map part_value ?parts))"
    by blast
  then have "concat [ascii ''on '', ascii ''1'', ascii ''/'', ascii ''2'', ascii ''/'',
               ascii ''2024'', ascii ''.''] = sample_text \<and>
        FormatDateTime sample_Intl sample_ICU (icu_simple_date_format sample_format)
          (Finite (3 / 2)) = Inr sample_text"
    by simp
  with a b c tc e show ?thesis by blast
qed

section \<open>Theorems: invalid time values\<close>

lemma and_then_neq:
  "m \<noteq> Inl e \<Longrightarrow> (\<And>x. f x \<noteq> Inl e) \<Longrightarrow> and_then m f \<noteq> Inl e"
  by (cases m) (simp_all add: and_then_def)

lemma from_Maybe_neq: "e \<noteq> PendingException \<Longrightarrow> from_Maybe m \<noteq> Inl e"
  by (cases m) (simp_all add: from_Maybe_def)

lemma NeedsDefault_loop_error:
  "NeedsDefault_loop h options b props = Inl e \<Longrightarrow> e = PendingException"
proof (induction props arbitrary: b)
  case Nil
  then show ?case by simp
next
  case (Cons p ps)
  show ?case
  proof (cases "IsPropertyUndefined h options p")
    case (Inl e')
    have "GetProperty_chain n h a p = Inl e' \<Longrightarrow> e' = PendingException" for n a
      by (induction n arbitrary: a) (auto split: if_splits option.splits Property.splits)
    with Inl have "e' = PendingException"
      by (auto simp: IsPropertyUndefined_def GetPropertyOrElement_def split: sum.splits)
    with Inl Cons.prems show ?thesis by simp
  next
    case (Inr u)
    with Cons.prems Cons.IH show ?thesis by simp
  qed
qed

lemma NeedsDefault_error: "NeedsDefault h options props = Inl e \<Longrightarrow> e = PendingException"
  unfolding NeedsDefault_def by (rule NeedsDefault_loop_error)

lemma needs_default_error:
  "ToDateTimeOptions_needs_default h options required = Inl e \<Longrightarrow> e = PendingException"
  unfolding ToDateTimeOptions_needs_default_def
  by (auto split: sum.splits if_splits dest: NeedsDefault_error)

lemma ToObject_error: "ToObject h v = Inl e \<Longrightarrow> e = TypeError kUndefinedOrNullToObject"
  by (cases v) simp_all

lemma ToDateTimeOptions_error:
  "ToDateTimeOptions h input required defaults = Inl e \<Longrightarrow>
     e = PendingException \<or> e = TypeError kUndefinedOrNullToObject"
  unfolding ToDateTimeOptions_def
  by (auto split: sum.splits if_splits prod.splits dest: needs_default_error ToObject_error)

lemma Initialize_skeleton_error:
  "Initialize_skeleton I h options hh sk items = Inl e \<Longrightarrow>
     e = PendingException \<or> e = Unreachable"
  by (induction items arbitrary: hh sk) (auto split: Maybe.splits option.splits)

lemma CreateCalendar_error: "CreateCalendar icu l tz = Inl e \<Longrightarrow> e = Fatal"
  by (auto simp: CreateCalendar_def split: option.splits)

lemma Initialize_date_format_error: "Initialize_date_format icu l sk = Inl e \<Longrightarrow> e = Fatal"
  by (auto simp: Initialize_date_format_def Let_def split: option.splits)

lemma and_then_error:
  "and_then m f = Inl e \<Longrightarrow> m = Inl e \<or> (\<exists>x. m = Inr x \<and> f x = Inl e)"
  by (cases m) (simp_all add: and_then_def)

lemma from_Maybe_error: "from_Maybe m = Inl e \<Longrightarrow> e = PendingException"
  by (cases m) (simp_all add: from_Maybe_def)

lemma Initialize_error:
  assumes "Initialize I icu h locales input_options = Inl e"
  shows "e = PendingException \<or> e = TypeError kUndefinedOrNullToObject \<or> e = Fatal \<or>
         e = Unreachable \<or> (\<exists>tz. e = RangeError (kInvalidTimeZone tz))"
  using assms unfolding Initialize_def Let_def
  by (auto dest!: and_then_error from_Maybe_error
      dest: ToDateTimeOptions_error CreateCalendar_error Initialize_skeleton_error
        Initialize_date_format_error
      split: option.splits prod.splits)

lemma Initialize_not_InvalidTimeValue:
  "Initialize I icu h locales input_options \<noteq> Inl (RangeError kInvalidTimeValue)"
  using Initialize_error [of I icu h locales input_options "RangeError kInvalidTimeValue"]
  by auto

lemma FormatToParts_loop_error:
  "FormatToParts_loop formatted p res fps = Inl e \<Longrightarrow> e = Unreachable"
proof (induction fps arbitrary: p res)
  case Nil
  then show ?case by simp
next
  case (Cons fp fps)
  show ?case
  proof (cases "IcuDateFieldIdToDateType (Some (fp_field fp))")
    case (Inl e')
    then have "e' = Unreachable" by (cases "fp_field fp") simp_all
    with Inl Cons.prems show ?thesis by (simp add: Let_def)
  next
    case (Inr ty)
    with Cons.prems Cons.IH show ?thesis by (simp add: Let_def)
  qed
qed

lemma FormatToParts_not_InvalidTimeValue:
  "FormatToParts icu date_time_format date_value \<noteq> Inl (RangeError kInvalidTimeValue)"
proof -
  obtain failure formatted fps where
    eng: "icu_format_positions icu (icu_simple_date_format date_time_format) date_value =
      (failure, formatted, fps)"
    by (cases "icu_format_positions icu (icu_simple_date_format date_time_format) date_value")
      auto
  show ?thesis
    using eng FormatToParts_loop_error [of formatted 0 "[]" fps]
    by (auto simp: FormatToParts_def Let_def split: sum.splits)
qed

lemma isnan_TimeClip: "isnan (TimeClip I t) = time_value_invalid I t"
  by (cases t) (auto simp: TimeClip_def time_value_invalid_def isnan_def)

text \<open>
  Claim C6. \<^const>\<open>FormatDateTime\<close> and the operation \<^const>\<open>formatToParts\<close> fail with
  the range error \<^const>\<open>kInvalidTimeValue\<close> exactly when the time value is not a number
  or lies outside the representable date range, whatever the formatter and the engine
  are; in particular both fail so for the time value that is not a number. For any
  other time value \<^const>\<open>FormatDateTime\<close> returns a text. The error does not arise
  within \<^const>\<open>FormatToParts\<close>, and \<^const>\<open>Initialize\<close> never fails with it, so it is
  an error of the formatting calls and not of the construction.
\<close>

theorem InvalidTimeValue_at_format_calls:
  "(FormatDateTime I icu date_format t = Inl (RangeError kInvalidTimeValue)) =
     time_value_invalid I t \<and>
   (formatToParts I icu date_time_format t = Inl (RangeError kInvalidTimeValue)) =
     time_value_invalid I t \<and>
   FormatDateTime I icu date_format NaN = Inl (RangeError kInvalidTimeValue) \<and>
   formatToParts I icu date_time_format NaN = Inl (RangeError kInvalidTimeValue) \<and>
   (\<not> time_value_invalid I t \<longrightarrow>
      (\<exists>formatted. FormatDateTime I icu date_format t = Inr formatted)) \<and>
   FormatToParts icu date_time_format date_value \<noteq> Inl (RangeError kInvalidTimeValue) \<and>
   Initialize I icu h locales input_options \<noteq> Inl (RangeError kInvalidTimeValue)"
proof -
  have a: "(FormatDateTime I icu date_format t = Inl (RangeError kInvalidTimeValue)) =
     time_value_invalid I t"
    by (simp add: FormatDateTime_def Let_def isnan_TimeClip)
  have b: "(formatToParts I icu date_time_format t = Inl (RangeError kInvalidTimeValue)) =
     time_value_invalid I t"
    by (simp add: formatToParts_def Let_def isnan_TimeClip FormatToParts_not_InvalidTimeValue)
  have n: "isnan (TimeClip I NaN)" by (simp add: TimeClip_def isnan_def)
  then have c: "FormatDateTime I icu date_format NaN = Inl (RangeError kInvalidTimeValue)"
    by (simp add: FormatDateTime_def)
  from n have d: "formatToParts I icu date_time_format NaN = Inl (RangeError kInvalidTimeValue)"
    by (simp add: formatToParts_def)
  have e: "\<exists>formatted. FormatDateTime I icu date_format t = Inr formatted"
    if "\<not> time_value_invalid I t"
    using that by (simp add: FormatDateTime_def Let_def isnan_TimeClip)
  from a b c d e FormatToParts_not_InvalidTimeValue Initialize_not_InvalidTimeValue
  show ?thesis by blast
qed

theorem InvalidTimeValue_at_format_calls_witness:
  "time_value_invalid sample_Intl (Finite 8640000000000001) \<and>
   FormatDateTime sample_Intl sample_ICU (icu_simple_date_format sample_format)
     (Finite 8640000000000001) = Inl (RangeError kInvalidTimeValue) \<and>
   formatToParts sample_Intl sample_ICU sample_format (Finite 8640000000000001) =
     Inl (RangeError kInvalidTimeValue) \<and>
   time_value_invalid sample_Intl (Infinity True) \<and>
   formatToParts sample_Intl sample_ICU sample_format (Infinity True) =
     Inl (RangeError kInvalidTimeValue) \<and>
   \<not> time_value_invalid sample_Intl (Finite 0) \<and>
   FormatDateTime sample_Intl sample_ICU (icu_simple_date_format sample_format) (Finite 0) =
     Inr sample_text"
proof -
  have a: "time_value_invalid sample_Intl (Finite 8640000000000001)"
    by (simp add: sample_Intl_def time_value_invalid_def)
  have b: "time_value_invalid sample_Intl (Infinity True)"
    by (simp add: time_value_invalid_def)
  have c: "\<not> time_value_invalid sample_Intl (Finite 0)"
    by (simp add: sample_Intl_def time_value_invalid_def)
  note big = InvalidTimeValue_at_format_calls
    [of sample_Intl sample_ICU "icu_simple_date_format sample_format" "Finite 8640000000000001"
       sample_format]
  note inf = InvalidTimeValue_at_format_calls
    [of sample_Intl sample_ICU "icu_simple_date_format sample_format" "Infinity True"
       sample_format]
  note zero = InvalidTimeValue_at_format_calls
    [of sample_Intl sample_ICU "icu_simple_date_format sample_format" "Finite 0" sample_format]
  from big a
  have d: "FormatDateTime sample_Intl sample_ICU (icu_simple_date_format sample_format)
       (Finite 8640000000000001) = Inl (RangeError kInvalidTimeValue) \<and>
     formatToParts sample_Intl sample_ICU sample_format (Finite 8640000000000001) =
       Inl (RangeError kInvalidTimeValue)"
    by blast
  from inf b
  have e: "formatToParts sample_Intl sample_ICU sample_format (Infinity True) =
       Inl (RangeError kInvalidTimeValue)"
    by blast
  from zero c obtain formatted where
    f: "FormatDateTime sample_Intl sample_ICU (icu_simple_date_format sample_format) (Finite 0) =
       Inr formatted"
    by blast
  have "FormatDateTime sample_Intl sample_ICU (icu_simple_date_format sample_format) (Finite 0) =
       Inr sample_text \<or>
     FormatDateTime sample_Intl sample_ICU (icu_simple_date_format sample_format) (Finite 0) =
       Inl (RangeError kInvalidTimeValue)"
    by (simp add: FormatDateTime_def Let_def icu_format_def sample_ICU_def)
  with f have g:
    "FormatDateTime sample_Intl sample_ICU (icu_simple_date_format sample_format) (Finite 0) =
       Inr sample_text"
    by simp
  from a b c d e g show ?thesis by blast
qed

text \<open>
  Claim C10. When the receiver is a date whose time value is not a number,
  \<^const>\<open>ToLocaleDateTime\<close> returns the string \<open>Invalid Date\<close> and not an error, whatever
  the locales, the options, the heap, the cache and the collaborators are: the test
  comes before the options are defaulted and before a formatter is looked up or
  built, and the cache is left as it was.
\<close>

theorem ToLocaleDateTime_invalid_date:
  "isnan x \<longrightarrow>
     ToLocaleDateTime I icu cache h (JSDate x) locales options required defaults =
       (Inr Invalid_Date_string, cache) \<and>
     Invalid_Date_string = ascii ''Invalid Date''"
  by (simp add: ToLocaleDateTime_def Invalid_Date_string_def)

theorem ToLocaleDateTime_invalid_date_witness:
  "isnan NaN \<and>
   fst (ToLocaleDateTime sample_Intl sample_ICU (\<lambda>ty. None) [] (JSDate NaN) Undefined Null
          Required_kAny Defaults_kAll) = Inr (ascii ''Invalid Date'') \<and>
   fst (ToLocaleDateTime sample_Intl sample_ICU (\<lambda>ty. None) [] (JSDate (Finite 0)) Undefined Null
          Required_kAny Defaults_kAll) = Inl (TypeError kUndefinedOrNullToObject)"
proof -
  have a: "isnan NaN" by (simp add: isnan_def)
  from ToLocaleDateTime_invalid_date
    [of NaN sample_Intl sample_ICU "\<lambda>ty. None" "[]" Undefined Null Required_kAny Defaults_kAll] a
  have b: "fst (ToLocaleDateTime sample_Intl sample_ICU (\<lambda>ty. None) [] (JSDate NaN) Undefined Null
          Required_kAny Defaults_kAll) = Inr (ascii ''Invalid Date'')"
    by simp
  have c: "fst (ToLocaleDateTime sample_Intl sample_ICU (\<lambda>ty. None) [] (JSDate (Finite 0))
          Undefined Null Required_kAny Defaults_kAll) = Inl (TypeError kUndefinedOrNullToObject)"
    by (simp add: ToLocaleDateTime_def isnan_def ToDateTimeOptions_def)
  from a b c show ?thesis by blast
qed

section \<open>Theorems: resolved options\<close>

lemma take_eq_prefix: "(take (length xs) ys = xs) = prefix xs ys"
proof
  assume "take (length xs) ys = xs"
  then have "prefix xs ys = prefix (take (length xs) ys) ys" by simp
  then show "prefix xs ys" by (simp add: take_is_prefix)
next
  assume "prefix xs ys"
  then show "take (length xs) ys = xs" by (auto simp: prefix_def)
qed

lemma string_find_from_sublist:
  "(string_find_from pos s str = None) = (\<not> sublist str s)"
proof (induction s arbitrary: pos)
  case Nil
  then show ?case by simp
next
  case (Cons c cs)
  have t: "(take (length str) (c # cs) = str) = prefix str (c # cs)"
    by (rule take_eq_prefix)
  show ?case
    unfolding string_find_from.simps t using Cons.IH [of "pos + 1"]
    by (auto simp: sublist_Cons_right)
qed

lemma string_find_sublist: "(string_find s str = None) = (\<not> sublist str s)"
  unfolding string_find_def by (rule string_find_from_sublist)

lemma ResolvedOptions_pairs_find:
  "ResolvedOptions_pairs pattern pairs =
     map_option pm_value (find (\<lambda>pair. sublist (pm_pattern pair) pattern) pairs)"
  by (induction pairs) (simp_all add: string_find_sublist)

lemma define_own_property_new:
  "name \<notin> fst ` set ps \<Longrightarrow> define_own_property ps name v = ps @ [(name, DataProperty v)]"
  unfolding define_own_property_def by (induction ps) auto

lemma ResolvedOptions_items_append:
  "distinct (map fst options @ map item_property items) \<Longrightarrow>
     ResolvedOptions_items pattern options items =
       options @
       List.map_filter
         (\<lambda>item. map_option (\<lambda>pair. (item_property item, DataProperty (String (pm_value pair))))
                   (find (\<lambda>pair. sublist (pm_pattern pair) pattern) (item_pairs item)))
         items"
proof (induction items arbitrary: options)
  case Nil
  then show ?case by (simp add: map_filter_simps)
next
  case (Cons item items)
  from Cons.prems have new: "item_property item \<notin> fst ` set options" by auto
  show ?case
  proof (cases "find (\<lambda>pair. sublist (pm_pattern pair) pattern) (item_pairs item)")
    case None
    from Cons.prems have "distinct (map fst options @ map item_property items)" by auto
    from Cons.IH [OF this] None show ?thesis
      by (simp add: ResolvedOptions_pairs_find map_filter_simps)
  next
    case (Some pair)
    let ?options = "options @ [(item_property item, DataProperty (String (pm_value pair)))]"
    from Cons.prems have "distinct (map fst ?options @ map item_property items)" by auto
    from Cons.IH [OF this] Some new show ?thesis
      by (simp add: ResolvedOptions_pairs_find map_filter_simps define_own_property_new)
  qed
qed

lemma item_properties:
  "map item_property GetPatternItems =
     [''weekday'', ''era'', ''year'', ''month'', ''day'', ''hour'', ''minute'', ''second'',
      ''timeZoneName'']"
  by (simp add: GetPatternItems_def)

lemma ResolvedOptions_shape:
  assumes "ResolvedOptions I icu date_time_format = Inr props"
  shows "\<exists>header.
     props = header @ reverse_map (sdf_pattern (icu_simple_date_format date_time_format)) \<and>
     set (map fst header) \<subseteq>
       {''locale'', ''calendar'', ''numberingSystem'', ''timeZone'', ''hourCycle'', ''hour12''} \<and>
     map_of header ''hourCycle'' =
       (if hour_cycle date_time_format = kUndefined then None
        else Some (DataProperty (String (HourCycleAsString (hour_cycle date_time_format))))) \<and>
     map_of header ''hour12'' =
       (if hour_cycle date_time_format = kUndefined then None
        else Some (DataProperty (Boolean (hour_cycle date_time_format = kH11 \<or>
                                          hour_cycle date_time_format = kH12)))) \<and>
     (\<exists>locale_str. ToLanguageTag I (icu_locale date_time_format) = Just locale_str \<and>
        map_of header ''locale'' = Some (DataProperty (String locale_str)))"
proof -
  let ?hc = "hour_cycle date_time_format"
  let ?ns = "GetNumberingSystem I (icu_locale date_time_format)"
  let ?pattern = "sdf_pattern (icu_simple_date_format date_time_format)"
  let ?calendar = "sdf_calendar (icu_simple_date_format date_time_format)"
  from assms obtain locale_str where
    tag: "ToLanguageTag I (icu_locale date_time_format) = Just locale_str"
    by (cases "ToLanguageTag I (icu_locale date_time_format)")
       (auto simp: ResolvedOptions_def and_then_def from_Maybe_def)
  define calendar_str where "calendar_str =
     (if calendar_type ?calendar = ''gregorian'' then ''gregory''
      else if calendar_type ?calendar = ''ethiopic-amete-alem'' then ''ethioaa''
      else calendar_type ?calendar)"
  define timezone_value where "timezone_value =
     (case icu_TimeZone_getCanonicalID icu (time_zone ?calendar) of
        Some canonical_time_zone \<Rightarrow>
          if canonical_time_zone = ''Etc/UTC'' \<or> canonical_time_zone = ''Etc/GMT''
          then String ''UTC'' else String canonical_time_zone
      | None \<Rightarrow> Undefined)"
  define header where "header =
       [(''locale'', DataProperty (String locale_str)),
        (''calendar'', DataProperty (String calendar_str))] @
       (if ?ns \<noteq> [] then [(''numberingSystem'', DataProperty (String ?ns))] else []) @
       [(''timeZone'', DataProperty timezone_value)] @
       (if ?hc \<noteq> kUndefined
        then [(''hourCycle'', DataProperty (String (HourCycleAsString ?hc))),
              (''hour12'', DataProperty (Boolean (?hc = kH11 \<or> ?hc = kH12)))]
        else [])"
  have items: "props = ResolvedOptions_items ?pattern header GetPatternItems"
    using assms tag unfolding header_def calendar_str_def timezone_value_def
    by (cases ?hc; cases "?ns = []";
        simp add: ResolvedOptions_def and_then_def from_Maybe_def Let_def define_own_property_def)
  have "distinct (map fst header @ map item_property GetPatternItems)"
    unfolding item_properties header_def by (cases ?hc; cases "?ns = []"; simp)
  from ResolvedOptions_items_append [OF this, of ?pattern] items
  have "props = header @ reverse_map ?pattern" by (simp add: reverse_map_def)
  moreover have "set (map fst header) \<subseteq>
       {''locale'', ''calendar'', ''numberingSystem'', ''timeZone'', ''hourCycle'', ''hour12''}"
    unfolding header_def by auto
  moreover have "map_of header ''hourCycle'' =
       (if ?hc = kUndefined then None else Some (DataProperty (String (HourCycleAsString ?hc))))"
    unfolding header_def by simp
  moreover have "map_of header ''hour12'' =
       (if ?hc = kUndefined then None else Some (DataProperty (Boolean (?hc = kH11 \<or> ?hc = kH12))))"
    unfolding header_def by simp
  moreover have "\<exists>locale_str. ToLanguageTag I (icu_locale date_time_format) = Just locale_str \<and>
        map_of header ''locale'' = Some (DataProperty (String locale_str))"
    using tag unfolding header_def by simp
  ultimately show ?thesis by blast
qed

text \<open>
  Claim C7, as amended. In the pair list of every field a token is never a part of a
  token listed after it, so of two tokens of a field of which one contains the other
  the longer one comes first (the lists are not ordered by length as a whole: weekday
  lists \<open>EEE\<close> before \<open>ccccc\<close>). The fields stand in the order weekday, era, year, month,
  day, hour, minute, second, timeZoneName. For each field \<^const>\<open>ResolvedOptions\<close> scans
  the pairs in the listed order and stops at the first token that occurs in the
  pattern of the formatter, and what it reports after its leading properties is, in
  field order, the value of that first token for every field that has one.
\<close>

theorem ResolvedOptions_reverse_map:
  "list_all containing_token_first GetPatternItems \<and>
   map item_property GetPatternItems =
     [''weekday'', ''era'', ''year'', ''month'', ''day'', ''hour'', ''minute'', ''second'',
      ''timeZoneName''] \<and>
   ResolvedOptions_pairs pattern pairs =
     map_option pm_value (find (\<lambda>pair. sublist (pm_pattern pair) pattern) pairs) \<and>
   (ResolvedOptions I icu date_time_format = Inr props \<longrightarrow>
      (\<exists>header.
         props = header @ reverse_map (sdf_pattern (icu_simple_date_format date_time_format)) \<and>
         set (map fst header) \<subseteq>
           {''locale'', ''calendar'', ''numberingSystem'', ''timeZone'', ''hourCycle'',
            ''hour12''}))"
proof -
  have a: "list_all containing_token_first GetPatternItems"
    by code_simp
  have b: "\<exists>header.
         props = header @ reverse_map (sdf_pattern (icu_simple_date_format date_time_format)) \<and>
         set (map fst header) \<subseteq>
           {''locale'', ''calendar'', ''numberingSystem'', ''timeZone'', ''hourCycle'',
            ''hour12''}"
    if "ResolvedOptions I icu date_time_format = Inr props"
    using ResolvedOptions_shape [OF that] by blast
  from a b item_properties ResolvedOptions_pairs_find show ?thesis by blast
qed

theorem ResolvedOptions_reverse_map_witness:
  "ResolvedOptions sample_Intl sample_ICU
     (sample_format\<lparr>icu_simple_date_format :=
        (icu_simple_date_format sample_format)\<lparr>sdf_pattern := ''EEEE, MMM d, y''\<rparr>\<rparr>) =
   Inr ([(''locale'', DataProperty (String ''en'')),
         (''calendar'', DataProperty (String ''gregory'')),
         (''numberingSystem'', DataProperty (String ''latn'')),
         (''timeZone'', DataProperty (String ''America/Los_Angeles''))] @
        [(''weekday'', DataProperty (String ''long'')),
         (''year'', DataProperty (String ''numeric'')),
         (''month'', DataProperty (String ''short'')),
         (''day'', DataProperty (String ''numeric''))]) \<and>
   reverse_map ''EEEE, MMM d, y'' =
     [(''weekday'', DataProperty (String ''long'')),
      (''year'', DataProperty (String ''numeric'')),
      (''month'', DataProperty (String ''short'')),
      (''day'', DataProperty (String ''numeric''))] \<and>
   (\<exists>header.
      [(''locale'', DataProperty (String ''en'')),
       (''calendar'', DataProperty (String ''gregory'')),
       (''numberingSystem'', DataProperty (String ''latn'')),
       (''timeZone'', DataProperty (String ''America/Los_Angeles''))] @
      [(''weekday'', DataProperty (String ''long'')),
       (''year'', DataProperty (String ''numeric'')),
       (''month'', DataProperty (String ''short'')),
       (''day'', DataProperty (String ''numeric''))] =
      header @ reverse_map ''EEEE, MMM d, y'' \<and>
      set (map fst header) \<subseteq>
        {''locale'', ''calendar'', ''numberingSystem'', ''timeZone'', ''hourCycle'', ''hour12''})"
proof -
  let ?f = "sample_format\<lparr>icu_simple_date_format :=
        (icu_simple_date_format sample_format)\<lparr>sdf_pattern := ''EEEE, MMM d, y''\<rparr>\<rparr>"
  let ?props = "[(''locale'', DataProperty (String ''en'')),
         (''calendar'', DataProperty (String ''gregory'')),
         (''numberingSystem'', DataProperty (String ''latn'')),
         (''timeZone'', DataProperty (String ''America/Los_Angeles''))] @
        [(''weekday'', DataProperty (String ''long'')),
         (''year'', DataProperty (String ''numeric'')),
         (''month'', DataProperty (String ''short'')),
         (''day'', DataProperty (String ''numeric''))]"
  have a: "ResolvedOptions sample_Intl sample_ICU ?f = Inr ?props"
    by code_simp
  have b: "reverse_map ''EEEE, MMM d, y'' =
     [(''weekday'', DataProperty (String ''long'')),
      (''year'', DataProperty (String ''numeric'')),
      (''month'', DataProperty (String ''short'')),
      (''day'', DataProperty (String ''numeric''))]"
    by code_simp
  have c: "sdf_pattern (icu_simple_date_format ?f) = ''EEEE, MMM d, y''"
    by simp
  from ResolvedOptions_reverse_map [of _ _ sample_Intl sample_ICU ?f ?props] a
  have "\<exists>header. ?props = header @ reverse_map (sdf_pattern (icu_simple_date_format ?f)) \<and>
         set (map fst header) \<subseteq>
           {''locale'', ''calendar'', ''numberingSystem'', ''timeZone'', ''hourCycle'',
            ''hour12''}"
    by blast
  then have "\<exists>header. ?props = header @ reverse_map ''EEEE, MMM d, y'' \<and>
         set (map fst header) \<subseteq>
           {''locale'', ''calendar'', ''numberingSystem'', ''timeZone'', ''hourCycle'',
            ''hour12''}"
    unfolding c .
  with a b show ?thesis by blast
qed

text \<open>
  The claim as stated orders every pair list with the longest token first. The list
  of weekday has the three-letter \<open>EEE\<close> before the five-letter \<open>ccccc\<close>.
\<close>

theorem longest_token_first_counterexample:
  "item_property (GetPatternItems ! 0) = ''weekday'' \<and>
   map pm_pattern (item_pairs (GetPatternItems ! 0)) =
     [''EEEEE'', ''EEEE'', ''EEE'', ''ccccc'', ''cccc'', ''ccc''] \<and>
   \<not> longest_token_first (GetPatternItems ! 0)"
  by code_simp

section \<open>Theorems: construction of the formatter\<close>

lemma and_then_Inr:
  "and_then m f = Inr y \<Longrightarrow> \<exists>x. m = Inr x \<and> f x = Inr y"
  by (cases m) (simp_all add: and_then_def)

lemma from_Maybe_Inr: "from_Maybe m = Inr x \<Longrightarrow> m = Just x"
  by (cases m) (simp_all add: from_Maybe_def)

text \<open>What a successful run of \<^const>\<open>Initialize\<close> has gone through.\<close>

lemma Initialize_Inr:
  assumes "Initialize I icu h locales input_options = Inr date_time_format"
  obtains requested_locales h1 options locale_matcher maybe_get_hour12 maybe_hour_cycle
    timezone calendar1 has_hour_option skeleton loc date_format0
  where "CanonicalizeLocaleList I h locales = Just requested_locales"
    and "ToDateTimeOptions h input_options Required_kAny Defaults_kDate = Inr (h1, options)"
    and "GetLocaleMatcher I h1 options = Just locale_matcher"
    and "GetBoolOption I h1 options ''hour12'' = Just maybe_get_hour12"
    and "GetHourCycle I h1 options = Just maybe_hour_cycle"
    and "GetStringOption I h1 options ''timeZone'' [] = Just timezone"
    and "Initialize_skeleton I h1 options False []
           (GetPatternData (Initialize_hour_cycle I maybe_get_hour12 maybe_hour_cycle
              (ResolveLocale I (GetAvailableLocales I icu) requested_locales locale_matcher
                 {''nu'', ''ca'', ''hc''}))) = Inr (has_hour_option, skeleton)"
    and "Initialize_date_format icu
           (r_icu_locale (ResolveLocale I (GetAvailableLocales I icu) requested_locales
              locale_matcher {''nu'', ''ca'', ''hc''})) skeleton = Inr (loc, date_format0)"
    and "hour_cycle date_time_format =
           Initialize_stored_hour_cycle has_hour_option
             (Initialize_hour_cycle I maybe_get_hour12 maybe_hour_cycle
                (ResolveLocale I (GetAvailableLocales I icu) requested_locales locale_matcher
                   {''nu'', ''ca'', ''hc''}))
             (date_format0\<lparr>sdf_calendar := calendar1\<rparr>)"
    and "icu_locale date_time_format =
           Initialize_reconcile I maybe_get_hour12 maybe_hour_cycle
             (ResolveLocale I (GetAvailableLocales I icu) requested_locales locale_matcher
                {''nu'', ''ca'', ''hc''})
             (hour_cycle date_time_format) loc"
    and "icu_simple_date_format date_time_format = date_format0\<lparr>sdf_calendar := calendar1\<rparr>"
proof -
  from assms obtain requested_locales where
    a1: "CanonicalizeLocaleList I h locales = Just requested_locales" and
    r1: "and_then (ToDateTimeOptions h input_options Required_kAny Defaults_kDate)
          (\<lambda>(h1, options).
     and_then (from_Maybe (GetLocaleMatcher I h1 options)) (\<lambda>locale_matcher.
     and_then (from_Maybe (GetBoolOption I h1 options ''hour12'')) (\<lambda>maybe_get_hour12.
     and_then (from_Maybe (GetHourCycle I h1 options)) (\<lambda>maybe_hour_cycle.
     let r = ResolveLocale I (GetAvailableLocales I icu) requested_locales locale_matcher
               {''nu'', ''ca'', ''hc''};
         hour_cycle = Initialize_hour_cycle I maybe_get_hour12 maybe_hour_cycle r
     in
     and_then (from_Maybe (GetStringOption I h1 options ''timeZone'' [])) (\<lambda>timezone.
     and_then (CreateCalendar icu (r_icu_locale r) timezone) (\<lambda>calendar.
     case calendar of
       None \<Rightarrow> Inl (RangeError (kInvalidTimeZone (case timezone of Some tz \<Rightarrow> tz | None \<Rightarrow> [])))
     | Some calendar1 \<Rightarrow>
     and_then (Initialize_skeleton I h1 options False [] (GetPatternData hour_cycle))
       (\<lambda>(has_hour_option, skeleton).
     and_then (from_Maybe (GetFormatMatcher I h1 options)) (\<lambda>format_matcher.
     and_then (Initialize_date_format icu (r_icu_locale r) skeleton) (\<lambda>(loc, date_format0).
     let date_format = date_format0\<lparr>sdf_calendar := calendar1\<rparr>;
         stored = Initialize_stored_hour_cycle has_hour_option hour_cycle date_format
     in Inr \<lparr>icu_locale = Initialize_reconcile I maybe_get_hour12 maybe_hour_cycle r stored loc,
             icu_simple_date_format = date_format,
             hour_cycle = stored\<rparr>))))))))) = Inr date_time_format"
    unfolding Initialize_def by (blast dest: and_then_Inr from_Maybe_Inr)
  from r1 obtain h1 options where
    a2: "ToDateTimeOptions h input_options Required_kAny Defaults_kDate = Inr (h1, options)"
    by (auto dest!: and_then_Inr)
  note r2 = r1 [unfolded a2 and_then_def sum.case prod.case, folded and_then_def]
  from r2 obtain locale_matcher where
    a3: "GetLocaleMatcher I h1 options = Just locale_matcher"
    by (auto dest!: and_then_Inr from_Maybe_Inr)
  note r3 = r2 [unfolded a3 from_Maybe_def and_then_def Maybe.case sum.case,
      folded and_then_def from_Maybe_def]
  from r3 obtain maybe_get_hour12 where
    a4: "GetBoolOption I h1 options ''hour12'' = Just maybe_get_hour12"
    by (auto dest!: and_then_Inr from_Maybe_Inr)
  note r4 = r3 [unfolded a4 from_Maybe_def and_then_def Maybe.case sum.case,
      folded and_then_def from_Maybe_def]
  from r4 obtain maybe_hour_cycle where
    a5: "GetHourCycle I h1 options = Just maybe_hour_cycle"
    by (auto dest!: and_then_Inr from_Maybe_Inr)
  note r5 = r4 [unfolded a5 from_Maybe_def and_then_def Maybe.case sum.case Let_def,
      folded and_then_def from_Maybe_def]
  let ?r = "ResolveLocale I (GetAvailableLocales I icu) requested_locales locale_matcher
               {''nu'', ''ca'', ''hc''}"
  let ?hc = "Initialize_hour_cycle I maybe_get_hour12 maybe_hour_cycle ?r"
  from r5 obtain timezone where
    a6: "GetStringOption I h1 options ''timeZone'' [] = Just timezone"
    by (auto dest!: and_then_Inr from_Maybe_Inr)
  note r6 = r5 [unfolded a6 from_Maybe_def and_then_def Maybe.case sum.case,
      folded and_then_def from_Maybe_def]
  from r6 obtain calendar1 where
    a7: "CreateCalendar icu (r_icu_locale ?r) timezone = Inr (Some calendar1)"
    by (auto dest!: and_then_Inr split: option.splits)
  note r7 = r6 [unfolded a7 and_then_def sum.case option.case, folded and_then_def]
  from r7 obtain has_hour_option skeleton where
    a8: "Initialize_skeleton I h1 options False [] (GetPatternData ?hc) =
      Inr (has_hour_option, skeleton)"
    by (auto dest!: and_then_Inr)
  note r8 = r7 [unfolded a8 and_then_def sum.case prod.case, folded and_then_def]
  from r8 obtain format_matcher where
    a9: "GetFormatMatcher I h1 options = Just format_matcher"
    by (auto dest!: and_then_Inr from_Maybe_Inr)
  note r9 = r8 [unfolded a9 from_Maybe_def and_then_def Maybe.case sum.case,
      folded and_then_def from_Maybe_def]
  from r9 obtain loc date_format0 where
    a10: "Initialize_date_format icu (r_icu_locale ?r) skeleton = Inr (loc, date_format0)"
    by (auto dest!: and_then_Inr)
  note r10 = r9 [unfolded a10 and_then_def sum.case prod.case Let_def]
  from r10 have
    c1: "hour_cycle date_time_format =
           Initialize_stored_hour_cycle has_hour_option ?hc (date_format0\<lparr>sdf_calendar := calendar1\<rparr>)"
    and c3: "icu_simple_date_format date_time_format = date_format0\<lparr>sdf_calendar := calendar1\<rparr>"
    and c2': "icu_locale date_time_format =
           Initialize_reconcile I maybe_get_hour12 maybe_hour_cycle ?r
             (Initialize_stored_hour_cycle has_hour_option ?hc (date_format0\<lparr>sdf_calendar := calendar1\<rparr>)) loc"
    by auto
  from c2' c1 have c2: "icu_locale date_time_format =
           Initialize_reconcile I maybe_get_hour12 maybe_hour_cycle ?r
             (hour_cycle date_time_format) loc" by simp
  from that [OF a1 a2 a3 a4 a5 a6 a8 a10 c1 c2 c3] show thesis .
qed

lemma Initialize_skeleton_has_hour:
  "Initialize_skeleton I h options hh sk items = Inr (hh', sk') \<Longrightarrow>
     hh' = (hh \<or> (\<exists>item \<in> set items. data_property item = ''hour'' \<and>
              (\<exists>v. GetStringOption I h options ''hour'' (data_allowed_values item) = Just (Some v))))"
proof (induction items arbitrary: hh sk)
  case Nil
  then show ?case by simp
next
  case (Cons item items)
  show ?case
  proof (cases "GetStringOption I h options (data_property item) (data_allowed_values item)")
    case Nothing
    with Cons.prems show ?thesis by simp
  next
    case (Just found)
    show ?thesis
    proof (cases found)
      case None
      with Just Cons.prems Cons.IH [of hh sk] show ?thesis by auto
    next
      case (Some input)
      with Just Cons.prems obtain token where
        "Initialize_skeleton I h options
           (if data_property item = ''hour'' then True else hh) (sk @ token) items = Inr (hh', sk')"
        by (auto split: option.splits)
      from Cons.IH [OF this] Just Some show ?thesis by auto
    qed
  qed
qed

lemma GetPatternData_hour:
  "(\<exists>item \<in> set (GetPatternData hc). data_property item = ''hour'' \<and> P (data_allowed_values item)) =
     P [''2-digit'', ''numeric'']"
  by (cases hc)
     (simp_all add: CreateData_def CreateCommonData_def GetPatternItems_def new_PatternData_def)

lemma has_hour_option_value:
  assumes "Initialize_skeleton I h options False [] (GetPatternData hc) = Inr (has_hour_option, sk)"
  shows "has_hour_option =
     (\<exists>v. GetStringOption I h options ''hour'' [''2-digit'', ''numeric''] = Just (Some v))"
  using Initialize_skeleton_has_hour [OF assms]
    GetPatternData_hour [of hc "\<lambda>allowed. \<exists>v. GetStringOption I h options ''hour'' allowed = Just (Some v)"]
  by simp

lemma map_filter_keys:
  "fst ` set (List.map_filter (\<lambda>item. map_option (\<lambda>pair. (item_property item, g pair)) (f item))
      items) \<subseteq> set (map item_property items)"
  by (induction items) (auto split: option.splits)

lemma reverse_map_keys:
  "fst ` set (reverse_map pattern) \<subseteq> set (map item_property GetPatternItems)"
  unfolding reverse_map_def by (rule map_filter_keys)

lemma Initialize_skeleton_getters:
  "Initialize_skeleton I h options hh sk items = Inr res \<Longrightarrow>
     \<not> (\<exists>item \<in> set items. data_property item = ''hour'' \<and>
           GetStringOption I h options ''hour'' (data_allowed_values item) = Nothing)"
proof (induction items arbitrary: hh sk)
  case Nil
  then show ?case by simp
next
  case (Cons item items)
  show ?case
  proof (cases "GetStringOption I h options (data_property item) (data_allowed_values item)")
    case Nothing
    with Cons.prems show ?thesis by simp
  next
    case (Just found)
    show ?thesis
    proof (cases found)
      case None
      with Just Cons.prems Cons.IH [of hh sk] show ?thesis by auto
    next
      case (Some input)
      with Just Cons.prems obtain token where
        "Initialize_skeleton I h options
           (if data_property item = ''hour'' then True else hh) (sk @ token) items = Inr res"
        by (auto split: option.splits)
      from Cons.IH [OF this] Just Some show ?thesis by auto
    qed
  qed
qed

lemma has_hour_option_present:
  assumes "Initialize_skeleton I h options False [] (GetPatternData hc) = Inr (has_hour_option, sk)"
  shows "has_hour_option =
     (GetStringOption I h options ''hour'' [''2-digit'', ''numeric''] \<noteq> Just None)"
proof -
  have "GetStringOption I h options ''hour'' [''2-digit'', ''numeric''] \<noteq> Nothing"
    using Initialize_skeleton_getters [OF assms]
      GetPatternData_hour [of hc "\<lambda>allowed. GetStringOption I h options ''hour'' allowed = Nothing"]
    by simp
  then have "(\<exists>v. GetStringOption I h options ''hour'' [''2-digit'', ''numeric''] = Just (Some v)) =
     (GetStringOption I h options ''hour'' [''2-digit'', ''numeric''] \<noteq> Just None)"
    by (cases "GetStringOption I h options ''hour'' [''2-digit'', ''numeric'']") auto
  with has_hour_option_value [OF assms] show ?thesis by simp
qed

lemma Initialize_hour_cycle_hour12:
  "Initialize_hour_cycle I (Some hour12) maybe_hour_cycle r = (if hour12 then kH12 else kH23)"
  by (simp add: Initialize_hour_cycle_def Initialize_step8_def)

lemma not_reported:
  assumes "props = header @ reverse_map pattern" and "map_of header name = None"
    and "name \<notin> set (map item_property GetPatternItems)"
  shows "map_of props name = None"
proof -
  from assms(3) reverse_map_keys [of pattern] have "name \<notin> fst ` set (reverse_map pattern)"
    by blast
  then have "map_of (reverse_map pattern) name = None" by (simp add: map_of_eq_None_iff)
  with assms(1,2) show ?thesis by (simp add: map_add_def)
qed

text \<open>
  Claim C9. Whenever the getter finds no hour option on the options view,
  \<^const>\<open>Initialize\<close> stores the hour cycle \<^const>\<open>kUndefined\<close>, whatever \<open>hour12\<close> and
  \<open>hourCycle\<close> the caller gave, and \<^const>\<open>ResolvedOptions\<close> then reports neither the
  property \<open>hourCycle\<close> nor the property \<open>hour12\<close>.
\<close>

theorem Initialize_without_hour:
  "ToDateTimeOptions h input_options Required_kAny Defaults_kDate = Inr (h1, options) \<and>
   GetStringOption I h1 options ''hour'' [''2-digit'', ''numeric''] = Just None \<and>
   Initialize I icu h locales input_options = Inr date_time_format \<longrightarrow>
     hour_cycle date_time_format = kUndefined \<and>
     (ResolvedOptions I icu date_time_format = Inr props \<longrightarrow>
        map_of props ''hourCycle'' = None \<and> map_of props ''hour12'' = None)"
proof (intro impI, elim conjE)
  assume opts: "ToDateTimeOptions h input_options Required_kAny Defaults_kDate = Inr (h1, options)"
    and nohour: "GetStringOption I h1 options ''hour'' [''2-digit'', ''numeric''] = Just None"
    and init: "Initialize I icu h locales input_options = Inr date_time_format"
  from init obtain h1' options' hc has_hour_option skeleton date_format where
    opts': "ToDateTimeOptions h input_options Required_kAny Defaults_kDate = Inr (h1', options')"
    and sk: "Initialize_skeleton I h1' options' False [] (GetPatternData hc) =
      Inr (has_hour_option, skeleton)"
    and stored: "hour_cycle date_time_format =
      Initialize_stored_hour_cycle has_hour_option hc date_format"
    by (rule Initialize_Inr)
  from opts opts' have same: "h1' = h1" "options' = options" by simp_all
  from has_hour_option_present [OF sk] nohour same have "\<not> has_hour_option" by simp
  with stored have undef: "hour_cycle date_time_format = kUndefined"
    by (simp add: Initialize_stored_hour_cycle_def)
  have "map_of props ''hourCycle'' = None \<and> map_of props ''hour12'' = None"
    if "ResolvedOptions I icu date_time_format = Inr props"
  proof -
    from ResolvedOptions_shape [OF that] undef obtain header where
      p: "props = header @ reverse_map (sdf_pattern (icu_simple_date_format date_time_format))"
      and c: "map_of header ''hourCycle'' = None" and d: "map_of header ''hour12'' = None"
      by auto
    have "''hourCycle'' \<notin> set (map item_property GetPatternItems)"
      and "''hour12'' \<notin> set (map item_property GetPatternItems)"
      unfolding item_properties by simp_all
    with not_reported [OF p c] not_reported [OF p d] show ?thesis by blast
  qed
  with undef show "hour_cycle date_time_format = kUndefined \<and>
     (ResolvedOptions I icu date_time_format = Inr props \<longrightarrow>
        map_of props ''hourCycle'' = None \<and> map_of props ''hour12'' = None)"
    by blast
qed

text \<open>
  Claim C2, as amended. When the getter finds the option \<open>hour12\<close>, it wins over the
  option \<open>hourCycle\<close> and over the extension of the locale: step 8 clears the
  \<open>hourCycle\<close> option, and the hour cycle used for the skeleton is \<open>h12\<close> for true and
  \<open>h23\<close> for false. The hour cycle stored is that one when the hour option is
  present, and undefined when it is absent. So with \<open>hour12\<close> true the stored hour
  cycle is never \<open>h23\<close> or \<open>h24\<close>, and it is among \<open>h11\<close> and \<open>h12\<close> whenever the hour
  option is present.
\<close>

theorem Initialize_hour12_wins:
  "Initialize_step8 (Some hour12) maybe_hour_cycle = kUndefined \<and>
   Initialize_hour_cycle I (Some hour12) maybe_hour_cycle r = (if hour12 then kH12 else kH23) \<and>
   (ToDateTimeOptions h input_options Required_kAny Defaults_kDate = Inr (h1, options) \<and>
    GetBoolOption I h1 options ''hour12'' = Just (Some hour12) \<and>
    Initialize I icu h locales input_options = Inr date_time_format \<longrightarrow>
      hour_cycle date_time_format =
        (if GetStringOption I h1 options ''hour'' [''2-digit'', ''numeric''] = Just None
         then kUndefined else if hour12 then kH12 else kH23) \<and>
      (hour12 \<longrightarrow> hour_cycle date_time_format \<noteq> kH23 \<and> hour_cycle date_time_format \<noteq> kH24) \<and>
      (hour12 \<and> GetStringOption I h1 options ''hour'' [''2-digit'', ''numeric''] \<noteq> Just None \<longrightarrow>
         hour_cycle date_time_format \<in> {kH11, kH12}))"
proof (intro conjI impI)
  show "Initialize_step8 (Some hour12) maybe_hour_cycle = kUndefined"
    by (simp add: Initialize_step8_def)
  show "Initialize_hour_cycle I (Some hour12) maybe_hour_cycle r = (if hour12 then kH12 else kH23)"
    by (rule Initialize_hour_cycle_hour12)
  assume a: "ToDateTimeOptions h input_options Required_kAny Defaults_kDate = Inr (h1, options) \<and>
    GetBoolOption I h1 options ''hour12'' = Just (Some hour12) \<and>
    Initialize I icu h locales input_options = Inr date_time_format"
  then have init: "Initialize I icu h locales input_options = Inr date_time_format" by simp
  from init obtain h1' options' m12 mhc r' has_hour_option skeleton date_format where
    opts': "ToDateTimeOptions h input_options Required_kAny Defaults_kDate = Inr (h1', options')"
    and h12: "GetBoolOption I h1' options' ''hour12'' = Just m12"
    and sk: "Initialize_skeleton I h1' options' False []
        (GetPatternData (Initialize_hour_cycle I m12 mhc r')) = Inr (has_hour_option, skeleton)"
    and stored: "hour_cycle date_time_format =
      Initialize_stored_hour_cycle has_hour_option (Initialize_hour_cycle I m12 mhc r') date_format"
    by (rule Initialize_Inr)
  from a opts' have same: "h1' = h1" "options' = options" by simp_all
  with a h12 have m12: "m12 = Some hour12" by simp
  have hc: "Initialize_hour_cycle I m12 mhc r' = (if hour12 then kH12 else kH23)"
    unfolding m12 by (rule Initialize_hour_cycle_hour12)
  from has_hour_option_present [OF sk] same
  have hh: "has_hour_option =
     (GetStringOption I h1 options ''hour'' [''2-digit'', ''numeric''] \<noteq> Just None)"
    by simp
  from stored hc hh
  show v: "hour_cycle date_time_format =
        (if GetStringOption I h1 options ''hour'' [''2-digit'', ''numeric''] = Just None
         then kUndefined else if hour12 then kH12 else kH23)"
    by (simp add: Initialize_stored_hour_cycle_def)
  {
    assume "hour12"
    with v show "hour_cycle date_time_format \<noteq> kH23" by simp
  }
  {
    assume "hour12"
    with v show "hour_cycle date_time_format \<noteq> kH24" by simp
  }
  {
    assume "hour12 \<and> GetStringOption I h1 options ''hour'' [''2-digit'', ''numeric''] \<noteq> Just None"
    with v show "hour_cycle date_time_format \<in> {kH11, kH12}" by simp
  }
qed

theorem Initialize_without_hour_witness:
  "ToDateTimeOptions sample_heap (Object 0) Required_kAny Defaults_kDate =
     Inr (sample_heap @
          [\<lparr>prototype = Some 0, properties =
              [(''year'', DataProperty (String ''numeric'')),
               (''month'', DataProperty (String ''numeric'')),
               (''day'', DataProperty (String ''numeric''))]\<rparr>], 2) \<and>
   GetStringOption sample_Intl
     (sample_heap @
      [\<lparr>prototype = Some 0, properties =
          [(''year'', DataProperty (String ''numeric'')),
           (''month'', DataProperty (String ''numeric'')),
           (''day'', DataProperty (String ''numeric''))]\<rparr>]) 2
     ''hour'' [''2-digit'', ''numeric''] = Just None \<and>
   GetBoolOption sample_Intl
     (sample_heap @
      [\<lparr>prototype = Some 0, properties =
          [(''year'', DataProperty (String ''numeric'')),
           (''month'', DataProperty (String ''numeric'')),
           (''day'', DataProperty (String ''numeric''))]\<rparr>]) 2
     ''hour12'' = Just (Some True) \<and>
   Initialize sample_Intl sample_ICU sample_heap Undefined (Object 0) =
     Inr \<lparr>icu_locale = \<lparr>base_name = ''en'', locale_keywords = []\<rparr>,
          icu_simple_date_format =
            \<lparr>sdf_pattern = ''yMd'', sdf_locale = \<lparr>base_name = ''en'', locale_keywords = []\<rparr>,
             sdf_calendar = \<lparr>calendar_type = ''gregorian'', time_zone = ''America/Los_Angeles'',
                             is_gregorian = True,
                             gregorian_change = Some (- 9007199254740992)\<rparr>\<rparr>,
          hour_cycle = kUndefined\<rparr> \<and>
   hour_cycle (\<lparr>icu_locale = \<lparr>base_name = ''en'', locale_keywords = []\<rparr>,
          icu_simple_date_format =
            \<lparr>sdf_pattern = ''yMd'', sdf_locale = \<lparr>base_name = ''en'', locale_keywords = []\<rparr>,
             sdf_calendar = \<lparr>calendar_type = ''gregorian'', time_zone = ''America/Los_Angeles'',
                             is_gregorian = True,
                             gregorian_change = Some (- 9007199254740992)\<rparr>\<rparr>,
          hour_cycle = kUndefined\<rparr>) = kUndefined \<and>
   ResolvedOptions sample_Intl sample_ICU
     \<lparr>icu_locale = \<lparr>base_name = ''en'', locale_keywords = []\<rparr>,
      icu_simple_date_format =
        \<lparr>sdf_pattern = ''yMd'', sdf_locale = \<lparr>base_name = ''en'', locale_keywords = []\<rparr>,
         sdf_calendar = \<lparr>calendar_type = ''gregorian'', time_zone = ''America/Los_Angeles'',
                         is_gregorian = True,
                         gregorian_change = Some (- 9007199254740992)\<rparr>\<rparr>,
      hour_cycle = kUndefined\<rparr> =
     Inr [(''locale'', DataProperty (String ''en'')),
          (''calendar'', DataProperty (String ''gregory'')),
          (''numberingSystem'', DataProperty (String ''latn'')),
          (''timeZone'', DataProperty (String ''America/Los_Angeles'')),
          (''year'', DataProperty (String ''numeric'')),
          (''month'', DataProperty (String ''numeric'')),
          (''day'', DataProperty (String ''numeric''))] \<and>
   map_of [(''locale'', DataProperty (String ''en'')),
          (''calendar'', DataProperty (String ''gregory'')),
          (''numberingSystem'', DataProperty (String ''latn'')),
          (''timeZone'', DataProperty (String ''America/Los_Angeles'')),
          (''year'', DataProperty (String ''numeric'')),
          (''month'', DataProperty (String ''numeric'')),
          (''day'', DataProperty (String ''numeric''))] ''hourCycle'' = None \<and>
   map_of [(''locale'', DataProperty (String ''en'')),
          (''calendar'', DataProperty (String ''gregory'')),
          (''numberingSystem'', DataProperty (String ''latn'')),
          (''timeZone'', DataProperty (String ''America/Los_Angeles'')),
          (''year'', DataProperty (String ''numeric'')),
          (''month'', DataProperty (String ''numeric'')),
          (''day'', DataProperty (String ''numeric''))] ''hour12'' = None"
proof -
  let ?props = "[(''locale'', DataProperty (String ''en'')),
          (''calendar'', DataProperty (String ''gregory'')),
          (''numberingSystem'', DataProperty (String ''latn'')),
          (''timeZone'', DataProperty (String ''America/Los_Angeles'')),
          (''year'', DataProperty (String ''numeric'')),
          (''month'', DataProperty (String ''numeric'')),
          (''day'', DataProperty (String ''numeric''))]"
  let ?h1 = "sample_heap @
      [\<lparr>prototype = Some 0, properties =
          [(''year'', DataProperty (String ''numeric'')),
           (''month'', DataProperty (String ''numeric'')),
           (''day'', DataProperty (String ''numeric''))]\<rparr>]"
  let ?f = "\<lparr>icu_locale = \<lparr>base_name = ''en'', locale_keywords = []\<rparr>,
          icu_simple_date_format =
            \<lparr>sdf_pattern = ''yMd'', sdf_locale = \<lparr>base_name = ''en'', locale_keywords = []\<rparr>,
             sdf_calendar = \<lparr>calendar_type = ''gregorian'', time_zone = ''America/Los_Angeles'',
                             is_gregorian = True,
                             gregorian_change = Some (- 9007199254740992)\<rparr>\<rparr>,
          hour_cycle = kUndefined\<rparr>"
  have a: "ToDateTimeOptions sample_heap (Object 0) Required_kAny Defaults_kDate = Inr (?h1, 2)"
    by code_simp
  have b: "GetStringOption sample_Intl ?h1 2 ''hour'' [''2-digit'', ''numeric''] = Just None"
    by code_simp
  have c: "GetBoolOption sample_Intl ?h1 2 ''hour12'' = Just (Some True)"
    by code_simp
  have d: "Initialize sample_Intl sample_ICU sample_heap Undefined (Object 0) = Inr ?f"
    by code_simp
  have e: "ResolvedOptions sample_Intl sample_ICU ?f = Inr ?props"
    by code_simp
  from Initialize_without_hour
    [of sample_heap "Object 0" ?h1 2 sample_Intl sample_ICU Undefined ?f ?props] a b d e
  have "hour_cycle ?f = kUndefined \<and> map_of ?props ''hourCycle'' = None \<and>
        map_of ?props ''hour12'' = None"
    by blast
  with a b c d e show ?thesis by blast
qed

theorem Initialize_hour12_wins_witness:
  "ToDateTimeOptions sample_heap (Object 1) Required_kAny Defaults_kDate =
     Inr (sample_heap @ [\<lparr>prototype = Some 1, properties = []\<rparr>], 2) \<and>
   GetBoolOption sample_Intl (sample_heap @ [\<lparr>prototype = Some 1, properties = []\<rparr>]) 2
     ''hour12'' = Just (Some True) \<and>
   GetHourCycle sample_Intl (sample_heap @ [\<lparr>prototype = Some 1, properties = []\<rparr>]) 2 =
     Just kH23 \<and>
   GetStringOption sample_Intl (sample_heap @ [\<lparr>prototype = Some 1, properties = []\<rparr>]) 2
     ''hour'' [''2-digit'', ''numeric''] = Just (Some ''numeric'') \<and>
   Initialize sample_Intl sample_ICU sample_heap Undefined (Object 1) =
     Inr \<lparr>icu_locale = \<lparr>base_name = ''en'', locale_keywords = []\<rparr>,
          icu_simple_date_format =
            \<lparr>sdf_pattern = ''h'', sdf_locale = \<lparr>base_name = ''en'', locale_keywords = []\<rparr>,
             sdf_calendar = \<lparr>calendar_type = ''gregorian'', time_zone = ''America/Los_Angeles'',
                             is_gregorian = True,
                             gregorian_change = Some (- 9007199254740992)\<rparr>\<rparr>,
          hour_cycle = kH12\<rparr> \<and>
   hour_cycle (\<lparr>icu_locale = \<lparr>base_name = ''en'', locale_keywords = []\<rparr>,
          icu_simple_date_format =
            \<lparr>sdf_pattern = ''h'', sdf_locale = \<lparr>base_name = ''en'', locale_keywords = []\<rparr>,
             sdf_calendar = \<lparr>calendar_type = ''gregorian'', time_zone = ''America/Los_Angeles'',
                             is_gregorian = True,
                             gregorian_change = Some (- 9007199254740992)\<rparr>\<rparr>,
          hour_cycle = kH12\<rparr>) \<in> {kH11, kH12}"
proof -
  let ?h1 = "sample_heap @ [\<lparr>prototype = Some 1, properties = []\<rparr>]"
  let ?f = "\<lparr>icu_locale = \<lparr>base_name = ''en'', locale_keywords = []\<rparr>,
          icu_simple_date_format =
            \<lparr>sdf_pattern = ''h'', sdf_locale = \<lparr>base_name = ''en'', locale_keywords = []\<rparr>,
             sdf_calendar = \<lparr>calendar_type = ''gregorian'', time_zone = ''America/Los_Angeles'',
                             is_gregorian = True,
                             gregorian_change = Some (- 9007199254740992)\<rparr>\<rparr>,
          hour_cycle = kH12\<rparr>"
  have a: "ToDateTimeOptions sample_heap (Object 1) Required_kAny Defaults_kDate = Inr (?h1, 2)"
    by code_simp
  have b: "GetBoolOption sample_Intl ?h1 2 ''hour12'' = Just (Some True)"
    by code_simp
  have c: "GetHourCycle sample_Intl ?h1 2 = Just kH23"
    by code_simp
  have d: "GetStringOption sample_Intl ?h1 2 ''hour'' [''2-digit'', ''numeric''] =
      Just (Some ''numeric'')"
    by code_simp
  have e: "Initialize sample_Intl sample_ICU sample_heap Undefined (Object 1) = Inr ?f"
    by code_simp
  from d have d': "GetStringOption sample_Intl ?h1 2 ''hour'' [''2-digit'', ''numeric''] \<noteq> Just None"
    by simp
  from Initialize_hour12_wins
    [of True _ sample_Intl _ sample_heap "Object 1" ?h1 2 sample_ICU Undefined ?f] a b e d'
  have "hour_cycle ?f \<in> {kH11, kH12}" by blast
  with a b c d e show ?thesis by blast
qed

text \<open>
  The claim as stated puts the stored hour cycle among \<open>h11\<close> and \<open>h12\<close> whenever
  \<open>hour12\<close> is true. With \<open>hour12\<close> true, \<open>hourCycle\<close> \<open>h23\<close> and no hour option, the
  stored hour cycle is undefined.
\<close>

theorem Initialize_hour12_without_hour_counterexample:
  "GetBoolOption sample_Intl
     (sample_heap @
      [\<lparr>prototype = Some 0, properties =
          [(''year'', DataProperty (String ''numeric'')),
           (''month'', DataProperty (String ''numeric'')),
           (''day'', DataProperty (String ''numeric''))]\<rparr>]) 2
     ''hour12'' = Just (Some True) \<and>
   GetHourCycle sample_Intl
     (sample_heap @
      [\<lparr>prototype = Some 0, properties =
          [(''year'', DataProperty (String ''numeric'')),
           (''month'', DataProperty (String ''numeric'')),
           (''day'', DataProperty (String ''numeric''))]\<rparr>]) 2 = Just kH23 \<and>
   Initialize sample_Intl sample_ICU sample_heap Undefined (Object 0) =
     Inr \<lparr>icu_locale = \<lparr>base_name = ''en'', locale_keywords = []\<rparr>,
          icu_simple_date_format =
            \<lparr>sdf_pattern = ''yMd'', sdf_locale = \<lparr>base_name = ''en'', locale_keywords = []\<rparr>,
             sdf_calendar = \<lparr>calendar_type = ''gregorian'', time_zone = ''America/Los_Angeles'',
                             is_gregorian = True,
                             gregorian_change = Some (- 9007199254740992)\<rparr>\<rparr>,
          hour_cycle = kUndefined\<rparr> \<and>
   kUndefined \<notin> {kH11, kH12}"
proof -
  let ?h1 = "sample_heap @
      [\<lparr>prototype = Some 0, properties =
          [(''year'', DataProperty (String ''numeric'')),
           (''month'', DataProperty (String ''numeric'')),
           (''day'', DataProperty (String ''numeric''))]\<rparr>]"
  have a: "GetBoolOption sample_Intl ?h1 2 ''hour12'' = Just (Some True)"
    by code_simp
  have b: "GetHourCycle sample_Intl ?h1 2 = Just kH23"
    by code_simp
  have c: "Initialize sample_Intl sample_ICU sample_heap Undefined (Object 0) =
     Inr \<lparr>icu_locale = \<lparr>base_name = ''en'', locale_keywords = []\<rparr>,
          icu_simple_date_format =
            \<lparr>sdf_pattern = ''yMd'', sdf_locale = \<lparr>base_name = ''en'', locale_keywords = []\<rparr>,
             sdf_calendar = \<lparr>calendar_type = ''gregorian'', time_zone = ''America/Los_Angeles'',
                             is_gregorian = True,
                             gregorian_change = Some (- 9007199254740992)\<rparr>\<rparr>,
          hour_cycle = kUndefined\<rparr>"
    by code_simp
  have d: "kUndefined \<notin> {kH11, kH12}" by simp
  from a b c d show ?thesis by blast
qed

text \<open>
  Claim C8. When the caller gave \<open>hour12\<close> or an \<open>hourCycle\<close> option and the resolved
  locale has an extension \<open>hc\<close> that is not the hour cycle stored in the formatter,
  \<^const>\<open>Initialize\<close> removes the keyword \<open>hc\<close> from the locale it stores, and the locale
  that \<^const>\<open>ResolvedOptions\<close> reports is the language tag of that stored locale.
\<close>

theorem Initialize_strips_hc:
  "CanonicalizeLocaleList I h locales = Just requested_locales \<and>
   ToDateTimeOptions h input_options Required_kAny Defaults_kDate = Inr (h1, options) \<and>
   GetLocaleMatcher I h1 options = Just locale_matcher \<and>
   GetBoolOption I h1 options ''hour12'' = Just maybe_get_hour12 \<and>
   GetHourCycle I h1 options = Just maybe_hour_cycle \<and>
   (maybe_get_hour12 \<noteq> None \<or> maybe_hour_cycle \<noteq> kUndefined) \<and>
   map_of (r_extensions (ResolveLocale I (GetAvailableLocales I icu) requested_locales
             locale_matcher {''nu'', ''ca'', ''hc''})) ''hc'' = Some hc_extension \<and>
   Initialize I icu h locales input_options = Inr date_time_format \<and>
   hour_cycle date_time_format \<noteq> ToHourCycle I hc_extension \<longrightarrow>
     map_of (locale_keywords (icu_locale date_time_format)) ''hc'' = None \<and>
     (ResolvedOptions I icu date_time_format = Inr props \<longrightarrow>
        (\<exists>tag. ToLanguageTag I (icu_locale date_time_format) = Just tag \<and>
               map_of props ''locale'' = Some (DataProperty (String tag))))"
proof (intro impI, elim conjE)
  assume loc: "CanonicalizeLocaleList I h locales = Just requested_locales"
    and opts: "ToDateTimeOptions h input_options Required_kAny Defaults_kDate = Inr (h1, options)"
    and lm: "GetLocaleMatcher I h1 options = Just locale_matcher"
    and h12: "GetBoolOption I h1 options ''hour12'' = Just maybe_get_hour12"
    and hcy: "GetHourCycle I h1 options = Just maybe_hour_cycle"
    and given: "maybe_get_hour12 \<noteq> None \<or> maybe_hour_cycle \<noteq> kUndefined"
    and ext: "map_of (r_extensions (ResolveLocale I (GetAvailableLocales I icu) requested_locales
             locale_matcher {''nu'', ''ca'', ''hc''})) ''hc'' = Some hc_extension"
    and init: "Initialize I icu h locales input_options = Inr date_time_format"
    and differ: "hour_cycle date_time_format \<noteq> ToHourCycle I hc_extension"
  from init obtain requested_locales' h1' options' locale_matcher' m12 mhc l where
    loc': "CanonicalizeLocaleList I h locales = Just requested_locales'"
    and opts': "ToDateTimeOptions h input_options Required_kAny Defaults_kDate = Inr (h1', options')"
    and lm': "GetLocaleMatcher I h1' options' = Just locale_matcher'"
    and h12': "GetBoolOption I h1' options' ''hour12'' = Just m12"
    and hcy': "GetHourCycle I h1' options' = Just mhc"
    and stored: "icu_locale date_time_format =
           Initialize_reconcile I m12 mhc
             (ResolveLocale I (GetAvailableLocales I icu) requested_locales' locale_matcher'
                {''nu'', ''ca'', ''hc''})
             (hour_cycle date_time_format) l"
    by (rule Initialize_Inr)
  from loc loc' have r: "requested_locales' = requested_locales" by simp
  from opts opts' have same: "h1' = h1" "options' = options" by simp_all
  from lm lm' same have m: "locale_matcher' = locale_matcher" by simp
  from h12 h12' same have a: "m12 = maybe_get_hour12" by simp
  from hcy hcy' same have b: "mhc = maybe_hour_cycle" by simp
  from stored given ext differ
  have "icu_locale date_time_format = setKeywordValue l ''hc'' None"
    unfolding r m a b by (simp add: Initialize_reconcile_def)
  then have stripped: "map_of (locale_keywords (icu_locale date_time_format)) ''hc'' = None"
    by (simp add: setKeywordValue_def delete_conv)
  have "\<exists>tag. ToLanguageTag I (icu_locale date_time_format) = Just tag \<and>
               map_of props ''locale'' = Some (DataProperty (String tag))"
    if "ResolvedOptions I icu date_time_format = Inr props"
  proof -
    from ResolvedOptions_shape [OF that] obtain header tag where
      p: "props = header @ reverse_map (sdf_pattern (icu_simple_date_format date_time_format))"
      and t: "ToLanguageTag I (icu_locale date_time_format) = Just tag"
      and l: "map_of header ''locale'' = Some (DataProperty (String tag))"
      by blast
    from p l have "map_of props ''locale'' = Some (DataProperty (String tag))"
      by (simp add: map_add_def)
    with t show ?thesis by blast
  qed
  with stripped
  show "map_of (locale_keywords (icu_locale date_time_format)) ''hc'' = None \<and>
     (ResolvedOptions I icu date_time_format = Inr props \<longrightarrow>
        (\<exists>tag. ToLanguageTag I (icu_locale date_time_format) = Just tag \<and>
               map_of props ''locale'' = Some (DataProperty (String tag))))"
    by blast
qed

theorem Initialize_strips_hc_witness:
  "CanonicalizeLocaleList sample_Intl sample_heap (String ''en-u-hc-h23'') = Just [''en-u-hc-h23''] \<and>
   ToDateTimeOptions sample_heap (Object 1) Required_kAny Defaults_kDate =
     Inr (sample_heap @ [\<lparr>prototype = Some 1, properties = []\<rparr>], 2) \<and>
   GetBoolOption sample_Intl (sample_heap @ [\<lparr>prototype = Some 1, properties = []\<rparr>]) 2
     ''hour12'' = Just (Some True) \<and>
   map_of (r_extensions (ResolveLocale sample_Intl (GetAvailableLocales sample_Intl sample_ICU)
             [''en-u-hc-h23''] kBestFit {''nu'', ''ca'', ''hc''})) ''hc'' = Some ''h23'' \<and>
   map_of (locale_keywords (r_icu_locale (ResolveLocale sample_Intl
             (GetAvailableLocales sample_Intl sample_ICU)
             [''en-u-hc-h23''] kBestFit {''nu'', ''ca'', ''hc''}))) ''hc'' = Some ''h23'' \<and>
   Initialize sample_Intl sample_ICU sample_heap (String ''en-u-hc-h23'') (Object 1) =
     Inr \<lparr>icu_locale = \<lparr>base_name = ''en'', locale_keywords = []\<rparr>,
          icu_simple_date_format =
            \<lparr>sdf_pattern = ''h'',
             sdf_locale = \<lparr>base_name = ''en'', locale_keywords = [(''hc'', ''h23'')]\<rparr>,
             sdf_calendar = \<lparr>calendar_type = ''gregorian'', time_zone = ''America/Los_Angeles'',
                             is_gregorian = True,
                             gregorian_change = Some (- 9007199254740992)\<rparr>\<rparr>,
          hour_cycle = kH12\<rparr> \<and>
   kH12 \<noteq> ToHourCycle sample_Intl ''h23'' \<and>
   map_of (locale_keywords (icu_locale
     \<lparr>icu_locale = \<lparr>base_name = ''en'', locale_keywords = []\<rparr>,
      icu_simple_date_format =
        \<lparr>sdf_pattern = ''h'',
         sdf_locale = \<lparr>base_name = ''en'', locale_keywords = [(''hc'', ''h23'')]\<rparr>,
         sdf_calendar = \<lparr>calendar_type = ''gregorian'', time_zone = ''America/Los_Angeles'',
                         is_gregorian = True,
                         gregorian_change = Some (- 9007199254740992)\<rparr>\<rparr>,
      hour_cycle = kH12\<rparr>)) ''hc'' = None"
proof -
  let ?h1 = "sample_heap @ [\<lparr>prototype = Some 1, properties = []\<rparr>]"
  let ?f = "\<lparr>icu_locale = \<lparr>base_name = ''en'', locale_keywords = []\<rparr>,
          icu_simple_date_format =
            \<lparr>sdf_pattern = ''h'',
             sdf_locale = \<lparr>base_name = ''en'', locale_keywords = [(''hc'', ''h23'')]\<rparr>,
             sdf_calendar = \<lparr>calendar_type = ''gregorian'', time_zone = ''America/Los_Angeles'',
                             is_gregorian = True,
                             gregorian_change = Some (- 9007199254740992)\<rparr>\<rparr>,
          hour_cycle = kH12\<rparr>"
  let ?r = "ResolveLocale sample_Intl (GetAvailableLocales sample_Intl sample_ICU)
             [''en-u-hc-h23''] kBestFit {''nu'', ''ca'', ''hc''}"
  have a: "CanonicalizeLocaleList sample_Intl sample_heap (String ''en-u-hc-h23'') =
      Just [''en-u-hc-h23'']"
    by (simp add: sample_Intl_def)
  have b: "ToDateTimeOptions sample_heap (Object 1) Required_kAny Defaults_kDate = Inr (?h1, 2)"
    by code_simp
  have c: "GetLocaleMatcher sample_Intl ?h1 2 = Just kBestFit"
    by (simp add: sample_Intl_def)
  have d: "GetBoolOption sample_Intl ?h1 2 ''hour12'' = Just (Some True)"
    by code_simp
  have e: "GetHourCycle sample_Intl ?h1 2 = Just kH23"
    by code_simp
  have f: "map_of (r_extensions ?r) ''hc'' = Some ''h23''"
    by (simp add: sample_Intl_def sample_ResolveLocale_def)
  have f': "map_of (locale_keywords (r_icu_locale ?r)) ''hc'' = Some ''h23''"
    by (simp add: sample_Intl_def sample_ResolveLocale_def)
  have g: "Initialize sample_Intl sample_ICU sample_heap (String ''en-u-hc-h23'') (Object 1) =
      Inr ?f"
    by code_simp
  have i: "kH12 \<noteq> ToHourCycle sample_Intl ''h23''"
    by (simp add: sample_Intl_def sample_ToHourCycle_def)
  then have i': "hour_cycle ?f \<noteq> ToHourCycle sample_Intl ''h23''" by simp
  have j: "Some True \<noteq> None \<or> kH23 \<noteq> kUndefined" by simp
  from Initialize_strips_hc
    [of sample_Intl sample_heap "String ''en-u-hc-h23''" "[''en-u-hc-h23'']" "Object 1" ?h1 2
       kBestFit "Some True" kH23 sample_ICU "''h23''" ?f]
    a b c d e f g i' j
  have "map_of (locale_keywords (icu_locale ?f)) ''hc'' = None" by blast
  with a b d f f' g i show ?thesis by blast
qed

end
